theory Spec2Isabelle
  imports Complex_Main
begin

section \<open>JavaScript strings and optional values\<close>

text \<open>
  The router of the feedback backend (\<^verbatim>\<open>plugins/feedback-backend/src/service/router.ts\<close>)
  works on JSON bodies, catalog entities and configuration values, all made of strings and
  optional fields. A JavaScript string is modelled as a \<^typ>\<open>string\<close>, one \<^typ>\<open>char\<close> per
  code unit (the embedding covers the code units below 256); a value that may be
  \<^verbatim>\<open>undefined\<close> is an \<^typ>\<open>'a option\<close>.
\<close>

text \<open>Truthiness of an optional string: \<^verbatim>\<open>undefined\<close> and the empty string are falsy.\<close>

definition truthy :: "string option \<Rightarrow> bool" where
  "truthy v = (case v of None \<Rightarrow> False | Some s \<Rightarrow> s \<noteq> [])"

text \<open>Interpolation \<^verbatim>\<open>${v}\<close> in a template literal: \<^verbatim>\<open>undefined\<close> prints as its name.\<close>

definition interp :: "string option \<Rightarrow> string" where
  "interp v = (case v of None \<Rightarrow> ''undefined'' | Some s \<Rightarrow> s)"

text \<open>\<^verbatim>\<open>a || b\<close> on optional strings.\<close>

definition or_else :: "string option \<Rightarrow> string option \<Rightarrow> string option" where
  "or_else a b = (if truthy a then a else b)"

text \<open>
  \<^verbatim>\<open>String.prototype.trim\<close>: the white space and line terminators among the code units
  below 256 are TAB, LF, VT, FF, CR, SPACE and NBSP.
\<close>

definition is_space :: "char \<Rightarrow> bool" where
  "is_space c = ((of_char c :: nat) \<in> {9, 10, 11, 12, 13, 32, 160})"

definition trim :: "string \<Rightarrow> string" where
  "trim s = rev (dropWhile is_space (rev (dropWhile is_space s)))"

text \<open>
  \<^verbatim>\<open>toLowerCase\<close> on the code units below 256: the letters A to Z and the capitals from
  U+00C0 to U+00DE (the multiplication sign U+00D7 apart) move up by 32.
\<close>

definition lower_char :: "char \<Rightarrow> char" where
  "lower_char c =
     (let n = (of_char c :: nat)
      in if (65 \<le> n \<and> n \<le> 90) \<or> (192 \<le> n \<and> n \<le> 222 \<and> n \<noteq> 215)
         then char_of (n + 32) else c)"

definition toLowerCase :: "string \<Rightarrow> string" where
  "toLowerCase s = map lower_char s"

text \<open>
  \<^verbatim>\<open>toUpperCase\<close> on the code units below 256: the letters a to z and the small letters from
  U+00E0 to U+00FE (the division sign U+00F7 apart) move down by 32, and the sharp s U+00DF
  becomes \<^verbatim>\<open>SS\<close>. The upper cases of U+00B5 and U+00FF lie above 255, outside the string type;
  the model leaves these two unchanged. The router only compares the upper-cased annotation
  with the literals \<^verbatim>\<open>'JIRA'\<close> and \<^verbatim>\<open>'MAIL'\<close>, which hold neither, so the comparisons are the
  ones JavaScript makes.
\<close>

definition upper_units :: "char \<Rightarrow> string" where
  "upper_units c =
     (let n = (of_char c :: nat)
      in if (97 \<le> n \<and> n \<le> 122) \<or> (224 \<le> n \<and> n \<le> 254 \<and> n \<noteq> 247)
         then [char_of (n - 32)]
         else if n = 223 then ''SS'' else [c])"

definition toUpperCase :: "string \<Rightarrow> string" where
  "toUpperCase s = concat (map upper_units s)"

text \<open>\<^verbatim>\<open>s.split(c)\<close> for a one-character separator: never the empty array.\<close>

fun split :: "char \<Rightarrow> string \<Rightarrow> string list" where
  "split c [] = [[]]"
| "split c (x # xs) =
     (if x = c then [] # split c xs
      else (case split c xs of [] \<Rightarrow> [[x]] | w # ws \<Rightarrow> (x # w) # ws))"

text \<open>\<^verbatim>\<open>parts.join(sep)\<close>.\<close>

fun join :: "string \<Rightarrow> string list \<Rightarrow> string" where
  "join sep [] = []"
| "join sep [w] = w"
| "join sep (w # ws) = w @ sep @ join sep ws"

text \<open>Array indexing \<^verbatim>\<open>xs[i]\<close>: \<^verbatim>\<open>undefined\<close> out of range.\<close>

definition at_index :: "'a list \<Rightarrow> nat \<Rightarrow> 'a option" where
  "at_index xs i = (if i < length xs then Some (xs ! i) else None)"

text \<open>\<^verbatim>\<open>v?.split('/')[1]\<close>: the optional chain stops at an \<^verbatim>\<open>undefined\<close> receiver.\<close>

definition second_segment :: "string option \<Rightarrow> string option" where
  "second_segment v = (case v of None \<Rightarrow> None | Some s \<Rightarrow> at_index (split CHR ''/'' s) 1)"

text \<open>Whether \<^verbatim>\<open>p\<close> occurs in \<^verbatim>\<open>s\<close> as a substring.\<close>

fun occurs_in :: "string \<Rightarrow> string \<Rightarrow> bool" where
  "occurs_in p [] = (p = [])"
| "occurs_in p (x # xs) = (take (length p) (x # xs) = p \<or> occurs_in p xs)"

text \<open>
  \<^verbatim>\<open>tag.match(/(Excellent|Good)/g)\<close> is an array of the matches, or \<^verbatim>\<open>null\<close> when there is
  none: it is truthy exactly when one of the two words occurs in the tag.
\<close>

definition matches_positive :: "string \<Rightarrow> bool" where
  "matches_positive t = (occurs_in ''Excellent'' t \<or> occurs_in ''Good'' t)"

section \<open>Data model\<close>

text \<open>
  Modelled from the spec: the type \<^verbatim>\<open>FeedbackModel\<close> (\<^verbatim>\<open>model/feedback.model\<close>) is imported
  by the router and is not among the sources. The fields are those of the spec's
  FeedbackRecord; every one is optional, as the router's \<^verbatim>\<open>?.\<close> and \<^verbatim>\<open>!\<close> accesses show.
\<close>

record FeedbackModel =
  feedbackId :: "string option"
  summary :: "string option"
  projectId :: "string option"
  description :: "string option"
  url :: "string option"
  tag :: "string option"
  ticketUrl :: "string option"
  feedbackType :: "string option"
  createdBy :: "string option"
  createdAt :: "string option"
  updatedBy :: "string option"
  updatedAt :: "string option"

text \<open>Errors a handler can end in: the promise of the \<^verbatim>\<open>async\<close> handler is rejected.\<close>

datatype js_error =
    TypeError string
  | ConfigError string
  | Rejected string
  | ERR_HTTP_HEADERS_SENT

datatype outcome = Returned | Raised js_error

text \<open>The \<^verbatim>\<open>{status, assignee}\<close> object of \<^verbatim>\<open>getTicketDetails\<close>.\<close>

record TicketDetails =
  status :: "string option"
  assignee :: "string option"

text \<open>The JSON bodies the handlers pass to \<^verbatim>\<open>res.status(n).json(...)\<close>.\<close>

datatype payload = FeedbackData FeedbackModel | TicketData "TicketDetails option"

datatype body =
    ErrorBody string
  | MessageBody string
  | DataBody payload string

text \<open>The argument of \<^verbatim>\<open>mailer.sendMail\<close>.\<close>

record MailOptions =
  to :: "string option"
  replyTo :: "string option"
  subject :: string
  mail_body :: string

text \<open>The arguments of \<^verbatim>\<open>createJiraTicket\<close>, in the order of the call.\<close>

record TicketCall =
  call_host :: string
  call_token :: string
  call_projectKey :: "string option"
  call_summary :: "string option"
  call_description :: string
  call_label :: string
  call_feedbackType :: "string option"
  call_username :: "string option"

text \<open>
  What a handler does besides computing, in the order it does it: every call to a
  collaborator (store, catalog, tracker, mailer, logger) and every call of
  \<^verbatim>\<open>res.status(n).json(body)\<close>.
\<close>

datatype event =
    Respond nat body
  | LogError string
  | CatalogGetEntityByRef "string option"
  | StoreInsert FeedbackModel
  | StoreUpdate FeedbackModel
  | StoreCheck string
  | StoreGet string
  | StoreDelete string
  | JiraUsernameLookup string "string option" string
  | JiraCreateTicket TicketCall
  | JiraTicketDetails string string string
  | SendMail MailOptions

fun is_respond :: "event \<Rightarrow> bool" where
  "is_respond (Respond n b) = True"
| "is_respond e = False"

fun is_side_effect :: "event \<Rightarrow> bool" where
  "is_side_effect (JiraCreateTicket c) = True"
| "is_side_effect (StoreUpdate d) = True"
| "is_side_effect (SendMail m) = True"
| "is_side_effect e = False"

fun is_ticket_call :: "event \<Rightarrow> bool" where
  "is_ticket_call (JiraCreateTicket c) = True"
| "is_ticket_call e = False"

fun is_mail :: "event \<Rightarrow> bool" where
  "is_mail (SendMail m) = True"
| "is_mail e = False"

fun is_insert :: "event \<Rightarrow> bool" where
  "is_insert (StoreInsert d) = True"
| "is_insert e = False"

fun is_update :: "event \<Rightarrow> bool" where
  "is_update (StoreUpdate d) = True"
| "is_update e = False"

text \<open>
  Express sends the first response; once the headers are sent, a further
  \<^verbatim>\<open>res.status(n).json(body)\<close> throws \<^verbatim>\<open>ERR_HTTP_HEADERS_SENT\<close>. \<open>send_json\<close> is that
  call after the events \<open>tr\<close>; \<open>wire_response\<close> is what the client receives.
\<close>

definition send_json :: "event list \<Rightarrow> nat \<Rightarrow> body \<Rightarrow> event list \<times> outcome" where
  "send_json tr n b =
     (tr @ [Respond n b], if list_ex is_respond tr then Raised ERR_HTTP_HEADERS_SENT else Returned)"

definition wire_response :: "event list \<Rightarrow> event option" where
  "wire_response tr = List.find is_respond tr"

section \<open>The catalog, the configuration and the tracker\<close>

text \<open>
  The part of a catalog \<^verbatim>\<open>Entity\<close> the router reads: \<^verbatim>\<open>kind\<close>, the metadata (\<^verbatim>\<open>name\<close>,
  \<^verbatim>\<open>namespace\<close>, \<^verbatim>\<open>title\<close>, \<^verbatim>\<open>annotations\<close>) and \<^verbatim>\<open>spec.profile.email\<close>.
\<close>

record EntityMeta =
  name :: string
  namespace :: "string option"
  title :: "string option"
  annotations :: "(string \<Rightarrow> string option) option"

record Profile =
  email :: "string option"

record EntitySpec =
  profile :: "Profile option"

record Entity =
  kind :: string
  metadata :: EntityMeta
  spec :: "EntitySpec option"

text \<open>An entry of the configuration array \<^verbatim>\<open>feedback.integrations.jira\<close>.\<close>

record JiraConfig =
  host :: string
  token :: string

text \<open>
  The collaborators of the router, as the answers they give. \<^verbatim>\<open>catalogClient.getEntityByRef\<close>
  resolves to an entity or to \<^verbatim>\<open>undefined\<close>, or rejects; \<^verbatim>\<open>config.getString\<close> and
  \<^verbatim>\<open>config.getConfigArray\<close> throw on a missing key (\<open>None\<close>); the tracker calls of \<^verbatim>\<open>../api\<close>
  (\<^verbatim>\<open>getJiraUsernameByEmail\<close>, \<^verbatim>\<open>createJiraTicket\<close> returning the \<^verbatim>\<open>key\<close> of the new ticket,
  \<^verbatim>\<open>getTicketDetails\<close>) resolve or reject; \<open>now_iso\<close> is \<^verbatim>\<open>new Date().toISOString()\<close> and
  \<open>toUTCString\<close> is \<^verbatim>\<open>new Date(s).toUTCString()\<close>; \<open>insert_answer\<close> is the database's answer
  to the insert of this request.
\<close>

record World =
  getEntityByRef :: "string option \<Rightarrow> js_error + Entity option"
  app_title :: "string option"
  jira_integrations :: "JiraConfig list option"
  getJiraUsernameByEmail :: "string \<Rightarrow> string option \<Rightarrow> string \<Rightarrow> js_error + string option"
  createJiraTicket :: "TicketCall \<Rightarrow> js_error + string"
  getTicketDetails :: "string \<Rightarrow> string \<Rightarrow> string \<Rightarrow> js_error + TicketDetails option"
  now_iso :: string
  toUTCString :: "string option \<Rightarrow> string"
  insert_answer :: "string option"

text \<open>A \<^verbatim>\<open>POST /\<close> request: the JSON body and the \<^verbatim>\<open>origin\<close> header.\<close>

record PostRequest =
  req_body :: FeedbackModel
  origin :: "string option"

section \<open>The feedback store\<close>

text \<open>
  Modelled from the spec: the class \<^verbatim>\<open>DatabaseFeedbackStore\<close> (\<^verbatim>\<open>database/feedbackStore\<close>) is
  not among the sources. The spec gives its contract: a table of feedback records keyed by
  \<^verbatim>\<open>feedbackId\<close>, with
  \<^verbatim>\<open>storeFeedbackGetUuid(record) -> record-with-id | sentinel-failure\<close>,
  \<^verbatim>\<open>getFeedbackByUuid(id) -> record\<close>, \<^verbatim>\<open>checkFeedbackId(id) -> boolean\<close>,
  \<^verbatim>\<open>updateFeedback(record) -> updated-record | falsy-on-failure\<close> and
  \<^verbatim>\<open>deleteFeedbackById(id) -> void\<close>. Whether an insert succeeds, and under which id, is the
  database's answer: \<open>None\<close> is the failure sentinel.
\<close>

record Store =
  rows :: "string \<Rightarrow> FeedbackModel option"

definition storeFeedbackGetUuid ::
  "string option \<Rightarrow> Store \<Rightarrow> FeedbackModel \<Rightarrow> Store \<times> FeedbackModel option" where
  "storeFeedbackGetUuid answer st d =
     (case answer of
        None \<Rightarrow> (st, None)
      | Some i \<Rightarrow>
          (let stored = d\<lparr>feedbackId := Some i\<rparr>
           in (st\<lparr>rows := (rows st)(i \<mapsto> stored)\<rparr>, Some stored)))"

definition checkFeedbackId :: "Store \<Rightarrow> string \<Rightarrow> bool" where
  "checkFeedbackId st i = (rows st i \<noteq> None)"

definition getFeedbackByUuid :: "Store \<Rightarrow> string \<Rightarrow> FeedbackModel option" where
  "getFeedbackByUuid st i = rows st i"

text \<open>A partial update: the fields the argument carries replace the stored ones.\<close>

definition merge_fields :: "FeedbackModel \<Rightarrow> FeedbackModel \<Rightarrow> FeedbackModel" where
  "merge_fields old d =
     \<lparr> feedbackId = feedbackId old,
       summary = (case summary d of None \<Rightarrow> summary old | Some v \<Rightarrow> Some v),
       projectId = (case projectId d of None \<Rightarrow> projectId old | Some v \<Rightarrow> Some v),
       description = (case description d of None \<Rightarrow> description old | Some v \<Rightarrow> Some v),
       url = (case url d of None \<Rightarrow> url old | Some v \<Rightarrow> Some v),
       tag = (case tag d of None \<Rightarrow> tag old | Some v \<Rightarrow> Some v),
       ticketUrl = (case ticketUrl d of None \<Rightarrow> ticketUrl old | Some v \<Rightarrow> Some v),
       feedbackType = (case feedbackType d of None \<Rightarrow> feedbackType old | Some v \<Rightarrow> Some v),
       createdBy = (case createdBy d of None \<Rightarrow> createdBy old | Some v \<Rightarrow> Some v),
       createdAt = (case createdAt d of None \<Rightarrow> createdAt old | Some v \<Rightarrow> Some v),
       updatedBy = (case updatedBy d of None \<Rightarrow> updatedBy old | Some v \<Rightarrow> Some v),
       updatedAt = (case updatedAt d of None \<Rightarrow> updatedAt old | Some v \<Rightarrow> Some v) \<rparr>"

definition updateFeedback :: "Store \<Rightarrow> FeedbackModel \<Rightarrow> Store \<times> FeedbackModel option" where
  "updateFeedback st d =
     (case feedbackId d of
        None \<Rightarrow> (st, None)
      | Some i \<Rightarrow>
          (case rows st i of
             None \<Rightarrow> (st, None)
           | Some old \<Rightarrow>
               (let new = merge_fields old d
                in (st\<lparr>rows := (rows st)(i \<mapsto> new)\<rparr>, Some new))))"

definition deleteFeedbackById :: "Store \<Rightarrow> string \<Rightarrow> Store" where
  "deleteFeedbackById st i = st\<lparr>rows := (rows st)(i := None)\<rparr>"

section \<open>GET /:id and DELETE /:id\<close>

text \<open>
  \<^verbatim>\<open>router.get('/:id')\<close>: a 200 with the record when the id is known, a 404 otherwise.
\<close>

definition get_handler :: "Store \<Rightarrow> string \<Rightarrow> Store \<times> event list \<times> outcome" where
  "get_handler st fid =
     (if checkFeedbackId st fid
      then (case getFeedbackByUuid st fid of
              None \<Rightarrow> (st, [StoreCheck fid, StoreGet fid],
                        Raised (Rejected ''getFeedbackByUuid''))
            | Some feedback \<Rightarrow>
                (let (tr, out) = send_json [StoreCheck fid, StoreGet fid] 200
                                   (DataBody (FeedbackData feedback) ''Feedback fetched successfully'')
                 in (st, tr, out)))
      else (let (tr, out) = send_json [StoreCheck fid] 404
                              (ErrorBody (''No feedback found for id '' @ fid))
            in (st, tr, out)))"

text \<open>
  \<^verbatim>\<open>router.delete('/:id')\<close>. The branch of a known id deletes and calls
  \<^verbatim>\<open>res.status(200).json(...)\<close> without returning; the statements after the \<^verbatim>\<open>if\<close> run in both
  cases.
\<close>

definition delete_handler :: "Store \<Rightarrow> string \<Rightarrow> Store \<times> event list \<times> outcome" where
  "delete_handler st fid =
     (let (st1, tr1) =
            (if checkFeedbackId st fid
             then (deleteFeedbackById st fid,
                   fst (send_json [StoreCheck fid, StoreDelete fid] 200
                          (MessageBody ''Deleted successfully'')))
             else (st, [StoreCheck fid]));
          tr2 = tr1 @ [LogError (''No feedback found for id '' @ fid)];
          (tr3, out) = send_json tr2 404 (MessageBody (''No feedback found for id '' @ fid))
      in (st1, tr3, out))"

section \<open>Host resolution\<close>

text \<open>
  \<^verbatim>\<open>POST /\<close> (lines 103 to 107) and \<^verbatim>\<open>GET /:id/ticket\<close> (lines 239 to 243) each pick the
  tracker configuration with
  \<^verbatim>\<open>getConfigArray(...).find(hostConfig => host === hostConfig.getString('host')) || getConfigArray(...)[0]\<close>.
  The result is \<^verbatim>\<open>undefined\<close> when the array is empty.
\<close>

definition post_serviceConfig :: "string option \<Rightarrow> JiraConfig list \<Rightarrow> JiraConfig option" where
  "post_serviceConfig h cfgs =
     (case List.find (\<lambda>hostConfig. h = Some (host hostConfig)) cfgs of
        Some serviceConfig \<Rightarrow> Some serviceConfig
      | None \<Rightarrow> at_index cfgs 0)"

definition ticket_serviceConfig :: "string option \<Rightarrow> JiraConfig list \<Rightarrow> JiraConfig option" where
  "ticket_serviceConfig h cfgs =
     (case List.find (\<lambda>hostConfig. h = Some (host hostConfig)) cfgs of
        Some serviceConfig \<Rightarrow> Some serviceConfig
      | None \<Rightarrow> at_index cfgs 0)"

text \<open>
  The policy in the spec's words: the entry whose host is the entity's \<^verbatim>\<open>feedback/host\<close>
  annotation when there is one (the first of them), otherwise the first configured entry.
\<close>

definition spec_host_policy :: "string option \<Rightarrow> JiraConfig list \<Rightarrow> JiraConfig option" where
  "spec_host_policy h cfgs =
     (case filter (\<lambda>c. Some (host c) = h) cfgs of
        c # rest \<Rightarrow> Some c
      | [] \<Rightarrow> (case cfgs of [] \<Rightarrow> None | c # rest \<Rightarrow> Some c))"

section \<open>POST /\<close>

text \<open>Lines 51 to 53: the server stamps the dates and the updater.\<close>

definition stamp :: "World \<Rightarrow> FeedbackModel \<Rightarrow> FeedbackModel" where
  "stamp w reqData =
     reqData
       \<lparr> createdAt := Some (now_iso w),
         updatedBy := createdBy reqData,
         updatedAt := Some (now_iso w) \<rparr>"

text \<open>Line 58: the route of the entity's feedback page.\<close>

definition entityRoute :: "string option \<Rightarrow> Entity option \<Rightarrow> string" where
  "entityRoute org entityRef =
     interp org @ ''/catalog/''
       @ interp (case entityRef of None \<Rightarrow> None | Some e \<Rightarrow> namespace (metadata e)) @ ''/''
       @ interp (map_option kind entityRef) @ ''/''
       @ interp (map_option (\<lambda>e. name (metadata e)) entityRef) @ ''/feedback''"

text \<open>Lines 60 and 61.\<close>

definition typeWord :: "FeedbackModel \<Rightarrow> string" where
  "typeWord reqData = (if feedbackType reqData = Some ''FEEDBACK'' then ''Feedback'' else ''Issue'')"

text \<open>
  Lines 63 to 70: a summary of more than 255 code units goes to the front of the
  description, and the summary becomes the templated sentence.
\<close>

definition entity_label :: "Entity option \<Rightarrow> string option" where
  "entity_label entityRef =
     or_else (case entityRef of None \<Rightarrow> None | Some e \<Rightarrow> title (metadata e))
             (map_option (\<lambda>e. name (metadata e)) entityRef)"

definition demote_summary :: "Entity option \<Rightarrow> FeedbackModel \<Rightarrow> FeedbackModel" where
  "demote_summary entityRef reqData =
     (case summary reqData of
        None \<Rightarrow> reqData
      | Some s \<Rightarrow>
          if length s > 255
          then reqData
                 \<lparr> description :=
                     Some (s @ [CHR 0x0A, CHR 0x0A]
                             @ (if truthy (description reqData) then interp (description reqData)
                                else [])),
                   summary :=
                     Some (typeWord reqData @ '' reported by ''
                             @ interp (second_segment (createdBy reqData)) @ '' for ''
                             @ interp (entity_label entityRef)) \<rparr>
          else reqData)"

text \<open>
  Lines 89 to 92: \<^verbatim>\<open>(entity?.spec?.profile as {email}).email\<close> throws when the reporter has no
  catalog entity, no spec or no profile.
\<close>

definition reporterEmail_of :: "Entity option \<Rightarrow> js_error + string option" where
  "reporterEmail_of reporter =
     (case reporter of
        None \<Rightarrow> Inl (TypeError ''Cannot read properties of undefined (reading email)'')
      | Some e \<Rightarrow>
          (case spec e of
             None \<Rightarrow> Inl (TypeError ''Cannot read properties of undefined (reading email)'')
           | Some sp \<Rightarrow>
               (case profile sp of
                  None \<Rightarrow> Inl (TypeError ''Cannot read properties of undefined (reading email)'')
                | Some p \<Rightarrow> Inr (email p))))"

text \<open>Lines 118 to 124: the description of the ticket.\<close>

definition jiraDescription ::
  "string \<Rightarrow> string option \<Rightarrow> string option \<Rightarrow> string \<Rightarrow> string \<Rightarrow> string \<Rightarrow> string option \<Rightarrow> string" where
  "jiraDescription d jiraUsername reporterEmail appTitle word route fid =
     d @ [CHR 0x0A, CHR 0x0A]
       @ (if jiraUsername = None then ''Reported by: '' @ interp reporterEmail else [CHR 0x0D])
       @ [CHR 0x0A] @ ''*Submitted from '' @ appTitle @ ''*'' @ [CHR 0x0A]
       @ ''['' @ word @ '' link|'' @ route @ ''?id='' @ interp fid @ '']''"

text \<open>Lines 126 to 135: the arguments of the call that creates the ticket.\<close>

definition ticket_call ::
  "JiraConfig \<Rightarrow> FeedbackModel \<Rightarrow> (string \<Rightarrow> string option) \<Rightarrow> string option \<Rightarrow> string option
     \<Rightarrow> string \<Rightarrow> string \<Rightarrow> string \<Rightarrow> string \<Rightarrow> TicketCall" where
  "ticket_call serviceConfig reqData anns jiraUsername reporterEmail appTitle route d t =
     \<lparr> call_host = host serviceConfig,
       call_token = token serviceConfig,
       call_projectKey = anns ''jira/project-key'',
       call_summary = summary reqData,
       call_description =
         jiraDescription d jiraUsername reporterEmail appTitle (typeWord reqData) route
           (feedbackId reqData),
       call_label = join ''-'' (split CHR '' '' (toLowerCase t)),
       call_feedbackType = feedbackType reqData,
       call_username = jiraUsername \<rparr>"

text \<open>
  Lines 99 to 137, the body of the tracker branch: resolve the configuration, look the
  reporter up, create the ticket, write the ticket URL into the record and update the store.
  The result is the store, the calls made, and the request data as the branch leaves it, or
  the error it throws.
\<close>

definition jira_branch ::
  "World \<Rightarrow> Store \<Rightarrow> FeedbackModel \<Rightarrow> (string \<Rightarrow> string option) \<Rightarrow> string option \<Rightarrow> string
     \<Rightarrow> string \<Rightarrow> Store \<times> event list \<times> (js_error + FeedbackModel)" where
  "jira_branch w st reqData anns reporterEmail appTitle route =
     (case jira_integrations w of
        None \<Rightarrow> (st, [], Inl (ConfigError ''feedback.integrations.jira''))
      | Some cfgs \<Rightarrow>
     (case post_serviceConfig (anns ''feedback/host'') cfgs of
        None \<Rightarrow> (st, [], Inl (TypeError ''Cannot read properties of undefined (reading getString)''))
      | Some serviceConfig \<Rightarrow>
     (let h = host serviceConfig;
          authToken = token serviceConfig;
          lookup = JiraUsernameLookup h reporterEmail authToken
      in case getJiraUsernameByEmail w h reporterEmail authToken of
           Inl e \<Rightarrow> (st, [lookup], Inl e)
         | Inr jiraUsername \<Rightarrow>
     (case description reqData of
        None \<Rightarrow> (st, [lookup], Inl (TypeError ''Cannot read properties of undefined (reading concat)''))
      | Some d \<Rightarrow>
     (case tag reqData of
        None \<Rightarrow> (st, [lookup], Inl (TypeError ''Cannot read properties of undefined (reading toLowerCase)''))
      | Some t \<Rightarrow>
     (let call = ticket_call serviceConfig reqData anns jiraUsername reporterEmail appTitle route d t
      in case createJiraTicket w call of
           Inl e \<Rightarrow> (st, [lookup, JiraCreateTicket call], Inl e)
         | Inr k \<Rightarrow>
             (let reqData1 = reqData\<lparr>ticketUrl := Some (h @ ''/browse/'' @ k)\<rparr>
              in (fst (updateFeedback st reqData1),
                  [lookup, JiraCreateTicket call, StoreUpdate reqData1],
                  Inr reqData1))))))))"

text \<open>
  Lines 95 to 138: the branch is taken when the upper-cased type is \<^verbatim>\<open>JIRA\<close> and the tag
  does not match the positive pattern (an absent tag does not match).
\<close>

definition tracker_step ::
  "World \<Rightarrow> Store \<Rightarrow> FeedbackModel \<Rightarrow> (string \<Rightarrow> string option) \<Rightarrow> string \<Rightarrow> string option \<Rightarrow> string
     \<Rightarrow> string \<Rightarrow> Store \<times> event list \<times> (js_error + FeedbackModel)" where
  "tracker_step w st reqData anns ty reporterEmail appTitle route =
     (if toUpperCase ty = ''JIRA''
         \<and> \<not> (case tag reqData of None \<Rightarrow> False | Some t \<Rightarrow> matches_positive t)
      then jira_branch w st reqData anns reporterEmail appTitle route
      else (st, [], Inr reqData))"

text \<open>Lines 141 to 178: the argument of \<^verbatim>\<open>mailer.sendMail\<close>.\<close>

definition mail_options ::
  "World \<Rightarrow> FeedbackModel \<Rightarrow> string option \<Rightarrow> string option \<Rightarrow> string \<Rightarrow> string \<Rightarrow> MailOptions" where
  "mail_options w reqData reporterEmail reply appTitle route =
     \<lparr> to = reporterEmail,
       replyTo = reply,
       subject = interp (tag reqData) @ '' - '' @ typeWord reqData @ '' reported for ''
                   @ interp (second_segment (projectId reqData)),
       mail_body =
         [CHR 0x0A] @ ''<div>'' @ [CHR 0x0A]
         @ ''  Hi '' @ interp (second_segment (createdBy reqData)) @ '','' @ [CHR 0x0A]
         @ ''  <br/> '' @ [CHR 0x0A]
         @ ''  <br/> '' @ [CHR 0x0A]
         @ ''  We have received your feedback for '' @ [CHR 0x0A]
         @ ''    <b>'' @ [CHR 0x0A]
         @ ''      '' @ interp (second_segment (projectId reqData)) @ [CHR 0x0A]
         @ ''    </b>, '' @ [CHR 0x0A]
         @ ''  and here are the details:'' @ [CHR 0x0A]
         @ ''  <br/>'' @ [CHR 0x0A]
         @ ''  <br/>'' @ [CHR 0x0A]
         @ ''  Summary: '' @ interp (summary reqData) @ [CHR 0x0A]
         @ ''  <br/>'' @ [CHR 0x0A]
         @ ''  <br/>'' @ [CHR 0x0A]
         @ ''  ''
         @ (if (case description reqData of None \<Rightarrow> False | Some d \<Rightarrow> length d > 0)
            then ''Description: '' @ interp (description reqData) @ [CHR 0x0A]
                   @ ''    <br/>'' @ [CHR 0x0A]
                   @ ''    <br/>''
            else [CHR 0x0D])
         @ [CHR 0x0A]
         @ ''  Submitted from: '' @ interp (url reqData) @ [CHR 0x0A]
         @ ''  <br/>'' @ [CHR 0x0A]
         @ ''  Submitted at: '' @ toUTCString w (createdAt reqData) @ '' '' @ [CHR 0x0A]
         @ ''  <br/>'' @ [CHR 0x0A]
         @ ''  <br/>'' @ [CHR 0x0A]
         @ ''  <a href='' @ [CHR 0x22] @ route @ ''?id='' @ interp (feedbackId reqData)
         @ [CHR 0x22] @ ''>'' @ [CHR 0x0A]
         @ ''    View on '' @ appTitle @ [CHR 0x0A]
         @ ''  </a>'' @ [CHR 0x0A]
         @ ''</div>'' \<rparr>"

text \<open>
  Lines 85 to 180, run after the 201 response when the entity has annotations: the
  reporter's email from the catalog, the application title, the tracker branch when the type
  is JIRA and the tag is not a positive one, then the mail when the type is MAIL or a
  reply-to address is annotated. \<^verbatim>\<open>type.toUpperCase()\<close> throws when the entity has no
  \<^verbatim>\<open>feedback/type\<close> annotation. \<^verbatim>\<open>mailer.sendMail\<close> is not awaited.
\<close>

definition side_effects ::
  "World \<Rightarrow> Store \<Rightarrow> FeedbackModel \<Rightarrow> (string \<Rightarrow> string option) \<Rightarrow> string
     \<Rightarrow> Store \<times> event list \<times> outcome" where
  "side_effects w st reqData anns route =
     (let type = anns ''feedback/type'';
          reply = anns ''feedback/email-to'';
          lookup = CatalogGetEntityByRef (createdBy reqData)
      in case getEntityByRef w (createdBy reqData) of
           Inl e \<Rightarrow> (st, [lookup], Raised e)
         | Inr reporter \<Rightarrow>
     (case reporterEmail_of reporter of
        Inl e \<Rightarrow> (st, [lookup], Raised e)
      | Inr reporterEmail \<Rightarrow>
     (case app_title w of
        None \<Rightarrow> (st, [lookup], Raised (ConfigError ''app.title''))
      | Some appTitle \<Rightarrow>
     (case type of
        None \<Rightarrow> (st, [lookup], Raised (TypeError ''Cannot read properties of undefined (reading toUpperCase)''))
      | Some ty \<Rightarrow>
     (let (st1, tr1, r) = tracker_step w st reqData anns ty reporterEmail appTitle route
      in case r of
           Inl e \<Rightarrow> (st1, lookup # tr1, Raised e)
         | Inr reqData1 \<Rightarrow>
             if toUpperCase ty = ''MAIL'' \<or> truthy reply
             then (st1,
                   lookup # tr1 @ [SendMail (mail_options w reqData1 reporterEmail reply appTitle route)],
                   Returned)
             else (st1, lookup # tr1, Returned))))))"

text \<open>
  \<^verbatim>\<open>router.post('/')\<close>, lines 46 to 182: validate the summary, stamp the dates, look the
  entity up, demote a long summary, store; on the failure sentinel answer 500; otherwise
  answer 201 with the store's result and run the side effects.
\<close>

definition post_handler :: "World \<Rightarrow> Store \<Rightarrow> PostRequest \<Rightarrow> Store \<times> event list \<times> outcome" where
  "post_handler w st req =
     (if (case summary (req_body req) of None \<Rightarrow> True | Some s \<Rightarrow> s = [] \<or> length (trim s) < 1)
      then (let (tr, out) = send_json [] 500 (ErrorBody ''Summary field empty'')
            in (st, tr, out))
      else
     (let stamped = stamp w (req_body req);
          lookup = CatalogGetEntityByRef (projectId stamped)
      in case getEntityByRef w (projectId stamped) of
           Inl e \<Rightarrow> (st, [lookup], Raised e)
         | Inr entityRef \<Rightarrow>
     (let route = entityRoute (origin req) entityRef;
          reqData = demote_summary entityRef stamped;
          (st1, respObj) = storeFeedbackGetUuid (insert_answer w) st reqData
      in case respObj of
           None \<Rightarrow>
             (let (tr, out) = send_json [lookup, StoreInsert reqData] 500
                                (ErrorBody (''Failed to create '' @ typeWord reqData))
              in (st1, tr, out))
         | Some stored \<Rightarrow>
     (let reqData1 = reqData\<lparr>feedbackId := feedbackId stored\<rparr>;
          (tr, out) = send_json [lookup, StoreInsert reqData] 201
                        (DataBody (FeedbackData stored) (typeWord reqData @ '' created successfully''))
      in case (case entityRef of None \<Rightarrow> None | Some e \<Rightarrow> annotations (metadata e)) of
           None \<Rightarrow> (st1, tr, Returned)
         | Some anns \<Rightarrow>
             (let (st2, tr2, out2) = side_effects w st1 reqData1 anns route
              in (st2, tr @ tr2, out2))))))"

section \<open>GET /:id/ticket\<close>

text \<open>
  \<^verbatim>\<open>router.get('/:id/ticket')\<close>, lines 224 to 258, on the query parameters \<^verbatim>\<open>ticketId\<close> and
  \<^verbatim>\<open>projectId\<close>: both truthy, the entity of type \<^verbatim>\<open>jira\<close>, the configuration resolved, the
  ticket fetched and answered with 200; a 404 otherwise.
\<close>

definition ticket_handler :: "World \<Rightarrow> string option \<Rightarrow> string option \<Rightarrow> event list \<times> outcome" where
  "ticket_handler w q_ticketId q_projectId =
     (let not_found =
            send_json
              (if truthy q_ticketId \<and> truthy q_projectId then [CatalogGetEntityByRef q_projectId] else [])
              404
              (ErrorBody (''Unable to fetch jira ticket ''
                 @ (if truthy q_ticketId then interp q_ticketId else ''null'')))
      in if truthy q_ticketId \<and> truthy q_projectId
         then (case getEntityByRef w q_projectId of
                 Inl e \<Rightarrow> ([CatalogGetEntityByRef q_projectId], Raised e)
               | Inr entityRef \<Rightarrow>
                   (let anns = (case entityRef of None \<Rightarrow> None | Some e \<Rightarrow> annotations (metadata e));
                        ftype = (case anns of None \<Rightarrow> None | Some m \<Rightarrow> m ''feedback/type'')
                    in if map_option toLowerCase ftype = Some ''jira''
                       then (case jira_integrations w of
                               None \<Rightarrow> ([CatalogGetEntityByRef q_projectId],
                                         Raised (ConfigError ''feedback.integrations.jira''))
                             | Some cfgs \<Rightarrow>
                          (case ticket_serviceConfig
                                  (case anns of None \<Rightarrow> None | Some m \<Rightarrow> m ''feedback/host'') cfgs of
                             None \<Rightarrow> ([CatalogGetEntityByRef q_projectId],
                                       Raised (TypeError ''Cannot read properties of undefined (reading getString)''))
                           | Some serviceConfig \<Rightarrow>
                          (let h = host serviceConfig;
                               authToken = token serviceConfig;
                               calls = [CatalogGetEntityByRef q_projectId,
                                        JiraTicketDetails h (interp q_ticketId) authToken]
                           in case getTicketDetails w h (interp q_ticketId) authToken of
                                Inl e \<Rightarrow> (calls, Raised e)
                              | Inr resp \<Rightarrow>
                                  send_json calls 200 (DataBody (TicketData resp) ''fetched successfully''))))
                       else not_found))
         else not_found)"

section \<open>GET /\<close>

text \<open>
  \<^verbatim>\<open>router.get('/')\<close>, lines 184 to 206. \<^verbatim>\<open>offset\<close> and \<^verbatim>\<open>limit\<close> are JavaScript numbers:
  \<^verbatim>\<open>parseInt(s, 10)\<close> of the query parameter, or the literals 0 and 10, and the page is
  \<^verbatim>\<open>offset / limit + 1\<close>. The arithmetic of JavaScript numbers is a parameter of the model: the
  handler is defined for any number type with a \<^verbatim>\<open>parseInt\<close>, a division, an addition and
  literals, so what is proved of it holds for the arithmetic of the engine.
\<close>

record 'n NumberOps =
  parseInt10 :: "string \<Rightarrow> 'n"
  num_div :: "'n \<Rightarrow> 'n \<Rightarrow> 'n"
  num_add :: "'n \<Rightarrow> 'n \<Rightarrow> 'n"
  num_lit :: "nat \<Rightarrow> 'n"

text \<open>The query string of \<^verbatim>\<open>GET /\<close>.\<close>

record ListQuery =
  q_projectId :: "string option"
  q_offset :: "string option"
  q_limit :: "string option"
  q_query :: "string option"

text \<open>The object passed to \<^verbatim>\<open>res.status(200).json\<close>: the store's result spread, and the page.\<close>

record ('r, 'n) ListBody =
  feedbackData :: 'r
  currentPage :: 'n
  pageSize :: 'n

text \<open>
  Modelled from the spec: \<^verbatim>\<open>getAllFeedbacks(projectId, offset, limit, searchKey)\<close> of the store,
  which is not among the sources, is the parameter \<open>getAllFeedbacks\<close>; it resolves to its
  result or rejects. The handler answers with the status and the body, or ends in the error.
\<close>

definition query_projectId :: "ListQuery \<Rightarrow> string" where
  "query_projectId q = (if truthy (q_projectId q) then interp (q_projectId q) else ''all'')"

definition query_offset :: "'n NumberOps \<Rightarrow> ListQuery \<Rightarrow> 'n" where
  "query_offset ops q =
     (if truthy (q_offset q) then parseInt10 ops (interp (q_offset q)) else num_lit ops 0)"

definition query_limit :: "'n NumberOps \<Rightarrow> ListQuery \<Rightarrow> 'n" where
  "query_limit ops q =
     (if truthy (q_limit q) then parseInt10 ops (interp (q_limit q)) else num_lit ops 10)"

definition query_searchKey :: "ListQuery \<Rightarrow> string" where
  "query_searchKey q = (if truthy (q_query q) then interp (q_query q) else [])"

definition list_handler ::
  "'n NumberOps \<Rightarrow> (string \<Rightarrow> 'n \<Rightarrow> 'n \<Rightarrow> string \<Rightarrow> js_error + 'r) \<Rightarrow> ListQuery
     \<Rightarrow> js_error + nat \<times> ('r, 'n) ListBody" where
  "list_handler ops getAllFeedbacks q =
     (let offset = query_offset ops q;
          limit = query_limit ops q
      in case getAllFeedbacks (query_projectId q) offset limit (query_searchKey q) of
           Inl e \<Rightarrow> Inl e
         | Inr fd \<Rightarrow>
             (let page = num_add ops (num_div ops offset limit) (num_lit ops 1)
              in Inr (200, \<lparr> feedbackData = fd, currentPage = page, pageSize = limit \<rparr>)))"

section \<open>Exact arithmetic for the page\<close>

text \<open>
  An instance of the number operations to run \<open>list_handler\<close> on: the numbers
  \<^verbatim>\<open>parseInt\<close>, a division and an addition can produce, with the two zeros, the two
  infinities and \<^verbatim>\<open>NaN\<close>, and with exact quotients and sums. \<open>Finite 0\<close> is the positive zero.
  It leaves out the rounding of binary64 (so also the overflow of a long digit string to
  \<^verbatim>\<open>Infinity\<close>): it is the engine's arithmetic wherever the operands and the page are
  representable.
\<close>

datatype jsnum = Finite rat | NegZero | NaN | PosInfinity | NegInfinity

definition is_digit :: "char \<Rightarrow> bool" where
  "is_digit c = (48 \<le> (of_char c :: nat) \<and> (of_char c :: nat) \<le> 57)"

definition digits_value :: "string \<Rightarrow> nat" where
  "digits_value ds = foldl (\<lambda>n c. 10 * n + (of_char c - 48)) 0 ds"

text \<open>
  \<^verbatim>\<open>parseInt(s, 10)\<close>: leading white space, an optional sign, then the longest run of
  decimal digits; \<^verbatim>\<open>NaN\<close> when there is no digit, the negative zero for \<^verbatim>\<open>'-0'\<close>.
\<close>

definition exact_parseInt :: "string \<Rightarrow> jsnum" where
  "exact_parseInt s =
     (let t = dropWhile is_space s;
          neg = (case t of [] \<Rightarrow> False | c # r \<Rightarrow> c = CHR ''-'');
          u = (case t of [] \<Rightarrow> [] | c # r \<Rightarrow> if c = CHR ''-'' \<or> c = CHR ''+'' then r else t);
          ds = takeWhile is_digit u
      in if ds = [] then NaN
         else if neg then (if digits_value ds = 0 then NegZero else Finite (- of_nat (digits_value ds)))
         else Finite (of_nat (digits_value ds)))"

text \<open>The sign bit, the zeros and the infinities.\<close>

fun sign_bit :: "jsnum \<Rightarrow> bool" where
  "sign_bit (Finite a) = (a < 0)"
| "sign_bit NegZero = True"
| "sign_bit NegInfinity = True"
| "sign_bit x = False"

definition is_zero :: "jsnum \<Rightarrow> bool" where
  "is_zero x = (x = Finite 0 \<or> x = NegZero)"

definition is_infinite :: "jsnum \<Rightarrow> bool" where
  "is_infinite x = (x = PosInfinity \<or> x = NegInfinity)"

text \<open>
  \<^verbatim>\<open>x / y\<close>: \<^verbatim>\<open>NaN\<close> for a \<^verbatim>\<open>NaN\<close> operand, for zero by zero and for infinity by infinity;
  otherwise the sign is the exclusive or of the signs, with an infinity for an infinite
  dividend or a zero divisor, a zero for a zero dividend or an infinite divisor, and the
  quotient else.
\<close>

definition exact_div :: "jsnum \<Rightarrow> jsnum \<Rightarrow> jsnum" where
  "exact_div x y =
     (if x = NaN \<or> y = NaN then NaN
      else if (is_zero x \<and> is_zero y) \<or> (is_infinite x \<and> is_infinite y) then NaN
      else if is_infinite x \<or> is_zero y
           then (if sign_bit x \<noteq> sign_bit y then NegInfinity else PosInfinity)
      else if is_zero x \<or> is_infinite y
           then (if sign_bit x \<noteq> sign_bit y then NegZero else Finite 0)
      else (case (x, y) of (Finite a, Finite b) \<Rightarrow> Finite (a / b) | other \<Rightarrow> NaN))"

text \<open>\<^verbatim>\<open>x + y\<close>: the sum of two negative zeros is the negative zero, any other zero sum is positive.\<close>

fun exact_add :: "jsnum \<Rightarrow> jsnum \<Rightarrow> jsnum" where
  "exact_add (Finite a) (Finite b) = Finite (a + b)"
| "exact_add NaN y = NaN"
| "exact_add x NaN = NaN"
| "exact_add PosInfinity NegInfinity = NaN"
| "exact_add NegInfinity PosInfinity = NaN"
| "exact_add PosInfinity y = PosInfinity"
| "exact_add NegInfinity y = NegInfinity"
| "exact_add x PosInfinity = PosInfinity"
| "exact_add x NegInfinity = NegInfinity"
| "exact_add NegZero y = y"
| "exact_add x NegZero = x"

definition exact_ops :: "jsnum NumberOps" where
  "exact_ops =
     \<lparr> parseInt10 = exact_parseInt, num_div = exact_div, num_add = exact_add,
       num_lit = (\<lambda>n. Finite (of_nat n)) \<rparr>"

section \<open>Sample data\<close>

text \<open>Records, a catalog, a configuration and requests to run the handlers on.\<close>

definition sample_feedback :: FeedbackModel where
  "sample_feedback =
     \<lparr> feedbackId = Some ''f1'', summary = Some ''Broken link'',
       projectId = Some ''component:default/shop'', description = Some ''The docs link is dead'',
       url = Some ''http://portal/catalog'', tag = Some ''Bad'', ticketUrl = None,
       feedbackType = Some ''ISSUE'', createdBy = Some ''user:default/jo'',
       createdAt = Some ''2023-11-01T10:00:00.000Z'', updatedBy = Some ''user:default/jo'',
       updatedAt = Some ''2023-11-01T10:00:00.000Z'' \<rparr>"

definition empty_store :: Store where
  "empty_store = \<lparr> rows = Map.empty \<rparr>"

definition sample_store :: Store where
  "sample_store = \<lparr> rows = [''f1'' \<mapsto> sample_feedback] \<rparr>"

text \<open>The body of a submission: no id, no dates, no ticket URL.\<close>

definition submission :: FeedbackModel where
  "submission =
     \<lparr> feedbackId = None, summary = Some ''Broken link'',
       projectId = Some ''component:default/shop'', description = Some ''The docs link is dead'',
       url = Some ''http://portal/catalog'', tag = Some ''Bad'', ticketUrl = None,
       feedbackType = Some ''ISSUE'', createdBy = Some ''user:default/jo'',
       createdAt = None, updatedBy = None, updatedAt = None \<rparr>"

definition sample_request :: PostRequest where
  "sample_request = \<lparr> req_body = submission, origin = Some ''http://portal'' \<rparr>"

definition shop_annotations :: "string \<Rightarrow> string option" where
  "shop_annotations =
     [''feedback/type'' \<mapsto> ''Jira'', ''feedback/host'' \<mapsto> ''https://jira.host'',
      ''feedback/email-to'' \<mapsto> ''team@example.com'', ''jira/project-key'' \<mapsto> ''SHOP'']"

definition shop_entity :: Entity where
  "shop_entity =
     \<lparr> kind = ''Component'',
       metadata = \<lparr> name = ''shop'', namespace = Some ''default'', title = Some ''Shop'',
                    annotations = Some shop_annotations \<rparr>,
       spec = None \<rparr>"

definition jo_entity :: Entity where
  "jo_entity =
     \<lparr> kind = ''User'',
       metadata = \<lparr> name = ''jo'', namespace = Some ''default'', title = None,
                    annotations = None \<rparr>,
       spec = Some \<lparr> profile = Some \<lparr> email = Some ''jo@example.com'' \<rparr> \<rparr> \<rparr>"

definition sample_catalog :: "string option \<Rightarrow> js_error + Entity option" where
  "sample_catalog r =
     (if r = Some ''component:default/shop'' then Inr (Some shop_entity)
      else if r = Some ''user:default/jo'' then Inr (Some jo_entity)
      else Inr None)"

definition sample_world :: World where
  "sample_world =
     \<lparr> getEntityByRef = sample_catalog,
       app_title = Some ''Portal'',
       jira_integrations =
         Some [\<lparr> host = ''https://other.host'', token = ''t0'' \<rparr>,
               \<lparr> host = ''https://jira.host'', token = ''t1'' \<rparr>],
       getJiraUsernameByEmail = (\<lambda>h e t. Inr (Some ''jo'')),
       createJiraTicket = (\<lambda>c. Inr ''SHOP-1''),
       getTicketDetails = (\<lambda>h i t. Inr (Some \<lparr> status = Some ''Backlog'', assignee = Some ''jo'' \<rparr>)),
       now_iso = ''2023-11-01T10:00:00.000Z'',
       toUTCString = (\<lambda>s. ''Wed, 01 Nov 2023 10:00:00 GMT''),
       insert_answer = Some ''f1'' \<rparr>"

text \<open>The same world with the tracker refusing to create tickets.\<close>

definition tracker_down_world :: World where
  "tracker_down_world =
     sample_world\<lparr> createJiraTicket := (\<lambda>c. Inl (Rejected ''Request failed with status code 503'')) \<rparr>"

text \<open>The same world with a catalog that knows no entity.\<close>

definition bare_world :: World where
  "bare_world = sample_world\<lparr> getEntityByRef := (\<lambda>r. Inr None) \<rparr>"

text \<open>The same world with a database that refuses the insert.\<close>

definition failing_store_world :: World where
  "failing_store_world = sample_world\<lparr> insert_answer := None \<rparr>"

text \<open>A store whose listing echoes its arguments, and the empty query string.\<close>

definition echo_store :: "string \<Rightarrow> jsnum \<Rightarrow> jsnum \<Rightarrow> string \<Rightarrow> js_error + string \<times> jsnum \<times> jsnum \<times> string" where
  "echo_store p a b k = Inr (p, a, b, k)"

definition no_query :: ListQuery where
  "no_query = \<lparr> q_projectId = None, q_offset = None, q_limit = None, q_query = None \<rparr>"

text \<open>A submission with a positive tag, and a catalog whose entity asks for mail.\<close>

definition praise_request :: PostRequest where
  "praise_request = sample_request\<lparr> req_body := submission\<lparr> tag := Some ''Very Good'' \<rparr> \<rparr>"

definition mail_entity :: Entity where
  "mail_entity =
     \<lparr> kind = ''Component'',
       metadata = \<lparr> name = ''shop'', namespace = Some ''default'', title = Some ''Shop'',
                    annotations = Some [''feedback/type'' \<mapsto> ''mail''] \<rparr>,
       spec = None \<rparr>"

definition mail_world :: World where
  "mail_world =
     sample_world\<lparr> getEntityByRef :=
       (\<lambda>r. if r = Some ''component:default/shop'' then Inr (Some mail_entity)
            else sample_catalog r) \<rparr>"

text \<open>A submission whose summary has 256 code units, the last of them \<^verbatim>\<open>Z\<close>.\<close>

definition long_summary :: string where
  "long_summary = replicate 255 CHR ''a'' @ ''Z''"

definition long_request :: PostRequest where
  "long_request = sample_request\<lparr> req_body := submission\<lparr> summary := Some long_summary \<rparr> \<rparr>"

text \<open>The same long summary as feedback, without a description.\<close>

definition kudos_request :: PostRequest where
  "kudos_request =
     sample_request\<lparr> req_body := submission\<lparr> summary := Some long_summary,
       feedbackType := Some ''FEEDBACK'', description := None \<rparr> \<rparr>"

text \<open>
  An entity without a title and without a \<^verbatim>\<open>feedback/host\<close> annotation, and the world whose
  catalog holds it.
\<close>

definition plain_annotations :: "string \<Rightarrow> string option" where
  "plain_annotations = [''feedback/type'' \<mapsto> ''jira'', ''jira/project-key'' \<mapsto> ''SHOP'']"

definition plain_entity :: Entity where
  "plain_entity =
     \<lparr> kind = ''Component'',
       metadata = \<lparr> name = ''shop'', namespace = Some ''default'', title = None,
                    annotations = Some plain_annotations \<rparr>,
       spec = None \<rparr>"

definition plain_world :: World where
  "plain_world =
     sample_world\<lparr> getEntityByRef :=
       (\<lambda>r. if r = Some ''component:default/shop'' then Inr (Some plain_entity)
            else sample_catalog r) \<rparr>"

text \<open>A submission that carries a ticket URL of its own.\<close>

definition ticketed_request :: PostRequest where
  "ticketed_request =
     sample_request\<lparr> req_body := submission\<lparr> ticketUrl := Some ''https://jira.host/browse/OLD-7'' \<rparr> \<rparr>"

text \<open>The tracker a call is addressed to: the host and the token it is made with.\<close>

fun tracker_target :: "event \<Rightarrow> (string \<times> string) option" where
  "tracker_target (JiraUsernameLookup h e t) = Some (h, t)"
| "tracker_target (JiraCreateTicket c) = Some (call_host c, call_token c)"
| "tracker_target (JiraTicketDetails h i t) = Some (h, t)"
| "tracker_target x = None"

definition addressed_to :: "JiraConfig \<Rightarrow> event \<Rightarrow> bool" where
  "addressed_to cfg x =
     (case tracker_target x of None \<Rightarrow> True | Some p \<Rightarrow> p = (host cfg, token cfg))"

section \<open>Auxiliary facts\<close>

lemma find_as_filter:
  "List.find P xs = (case filter P xs of [] \<Rightarrow> None | x # rest \<Rightarrow> Some x)"
  by (induction xs) auto

lemma host_pred_commute: "(\<lambda>hostConfig. h = Some (host hostConfig)) = (\<lambda>c. Some (host c) = h)"
  by auto

lemma trim_nonempty: "trim s \<noteq> [] \<Longrightarrow> s \<noteq> []"
  by (auto simp: trim_def)

lemma typeWord_stamp [simp]: "typeWord (stamp w d) = typeWord d"
  by (simp add: typeWord_def stamp_def)

lemma typeWord_demote [simp]: "typeWord (demote_summary e d) = typeWord d"
  by (simp add: typeWord_def demote_summary_def split: option.splits)

lemma projectId_stamp [simp]: "projectId (stamp w d) = projectId d"
  by (simp add: stamp_def)

lemma tag_prepared [simp]: "tag (demote_summary e (stamp w d)) = tag d"
  by (simp add: demote_summary_def stamp_def split: option.splits)

lemma createdBy_prepared [simp]: "createdBy (demote_summary e (stamp w d)) = createdBy d"
  by (simp add: demote_summary_def stamp_def split: option.splits)

lemma projectId_prepared [simp]: "projectId (demote_summary e (stamp w d)) = projectId d"
  by (simp add: demote_summary_def stamp_def split: option.splits)

lemma ticketUrl_prepared [simp]: "ticketUrl (demote_summary e (stamp w d)) = ticketUrl d"
  by (simp add: demote_summary_def stamp_def split: option.splits)

lemma jira_branch_events:
  "jira_branch w st d anns em appTitle route = (st', tr, r) \<Longrightarrow>
     \<not> list_ex is_respond tr \<and> \<not> list_ex is_mail tr \<and> \<not> list_ex is_insert tr"
  by (auto simp: jira_branch_def Let_def split: option.splits sum.splits)

lemma jira_branch_result:
  "jira_branch w st d anns em appTitle route = (st', tr, Inr d') \<Longrightarrow>
     \<exists>u. d' = d\<lparr>ticketUrl := Some u\<rparr> \<and> st' = fst (updateFeedback st d')"
  by (auto simp: jira_branch_def Let_def split: option.splits sum.splits)

lemma jira_branch_error:
  "jira_branch w st d anns em appTitle route = (st', tr, Inl e) \<Longrightarrow> st' = st"
  by (auto simp: jira_branch_def Let_def split: option.splits sum.splits)

lemma tracker_step_events:
  "tracker_step w st d anns ty em appTitle route = (st', tr, r) \<Longrightarrow>
     \<not> list_ex is_respond tr \<and> \<not> list_ex is_mail tr \<and> \<not> list_ex is_insert tr"
  by (auto simp: tracker_step_def dest: jira_branch_events split: if_splits)

lemma tracker_step_result:
  "tracker_step w st d anns ty em appTitle route = (st', tr, Inr d') \<Longrightarrow>
     (d' = d \<and> st' = st) \<or> (\<exists>u. d' = d\<lparr>ticketUrl := Some u\<rparr> \<and> st' = fst (updateFeedback st d'))"
  by (auto simp: tracker_step_def dest: jira_branch_result split: if_splits)

lemma tracker_step_error:
  "tracker_step w st d anns ty em appTitle route = (st', tr, Inl e) \<Longrightarrow> st' = st"
  by (auto simp: tracker_step_def dest: jira_branch_error split: if_splits)

lemma tracker_step_positive:
  "tag d = Some t \<Longrightarrow> matches_positive t \<Longrightarrow>
     tracker_step w st d anns ty em appTitle route = (st, [], Inr d)"
  by (simp add: tracker_step_def)

lemma side_effects_events:
  "side_effects w st d anns route = (st', tr, out) \<Longrightarrow>
     \<not> list_ex is_respond tr \<and> \<not> list_ex is_insert tr"
  by (auto simp: side_effects_def Let_def dest: tracker_step_events
      split: option.splits sum.splits prod.splits if_splits)

lemma side_effects_positive:
  "side_effects w st d anns route = (st', tr, out) \<Longrightarrow> tag d = Some t \<Longrightarrow> matches_positive t \<Longrightarrow>
     st' = st \<and> \<not> list_ex is_ticket_call tr \<and> \<not> list_ex is_update tr"
  by (auto simp: side_effects_def Let_def tracker_step_positive
      split: option.splits sum.splits prod.splits if_splits)

lemma side_effects_store:
  "side_effects w st d anns route = (st', tr, out) \<Longrightarrow>
     st' = st \<or> (\<exists>u. st' = fst (updateFeedback st (d\<lparr>ticketUrl := Some u\<rparr>)))"
  by (auto simp: side_effects_def Let_def dest: tracker_step_result tracker_step_error
      split: option.splits sum.splits prod.splits if_splits)

lemma side_effects_run:
  assumes "getEntityByRef w (createdBy d) = Inr rep" and "reporterEmail_of rep = Inr em"
    and "app_title w = Some appTitle" and "anns ''feedback/type'' = Some ty"
  shows "side_effects w st d anns route =
     (case tracker_step w st d anns ty em appTitle route of
        (st1, tr1, Inl e) \<Rightarrow> (st1, CatalogGetEntityByRef (createdBy d) # tr1, Raised e)
      | (st1, tr1, Inr d1) \<Rightarrow>
          (st1,
           CatalogGetEntityByRef (createdBy d) # tr1
             @ (if toUpperCase ty = ''MAIL'' \<or> truthy (anns ''feedback/email-to'')
                then [SendMail (mail_options w d1 em (anns ''feedback/email-to'') appTitle route)]
                else []),
           Returned))"
  using assms by (simp add: side_effects_def Let_def split: prod.splits sum.splits)

lemma jira_branch_success:
  assumes "jira_integrations w = Some cfgs"
    and "post_serviceConfig (anns ''feedback/host'') cfgs = Some cfg"
    and "getJiraUsernameByEmail w (host cfg) em (token cfg) = Inr un"
    and "description d = Some desc" and "tag d = Some t"
    and "createJiraTicket w (ticket_call cfg d anns un em appTitle route desc t) = Inr k"
  shows "jira_branch w st d anns em appTitle route =
     (fst (updateFeedback st (d\<lparr>ticketUrl := Some (host cfg @ ''/browse/'' @ k)\<rparr>)),
      [JiraUsernameLookup (host cfg) em (token cfg),
       JiraCreateTicket (ticket_call cfg d anns un em appTitle route desc t),
       StoreUpdate (d\<lparr>ticketUrl := Some (host cfg @ ''/browse/'' @ k)\<rparr>)],
      Inr (d\<lparr>ticketUrl := Some (host cfg @ ''/browse/'' @ k)\<rparr>))"
  using assms by (simp add: jira_branch_def Let_def)

lemma update_after_insert:
  "feedbackId d = Some i \<Longrightarrow>
   rows (fst (updateFeedback (st\<lparr>rows := (rows st)(i \<mapsto> d)\<rparr>) (d\<lparr>ticketUrl := Some u\<rparr>))) i
     = Some (d\<lparr>ticketUrl := Some u\<rparr>)"
  by (cases d) (simp add: updateFeedback_def merge_fields_def Let_def split: option.splits)

lemma post_handler_stored:
  assumes "summary (req_body req) = Some s" and "trim s \<noteq> []"
    and "getEntityByRef w (projectId (req_body req)) = Inr entityRef"
    and "insert_answer w = Some i"
    and "d = demote_summary entityRef (stamp w (req_body req))"
    and "pre = [CatalogGetEntityByRef (projectId (req_body req)), StoreInsert d,
                Respond 201 (DataBody (FeedbackData (d\<lparr>feedbackId := Some i\<rparr>))
                              (typeWord (req_body req) @ '' created successfully''))]"
    and "st1 = st\<lparr>rows := (rows st)(i \<mapsto> d\<lparr>feedbackId := Some i\<rparr>)\<rparr>"
  shows "post_handler w st req =
     (case (case entityRef of None \<Rightarrow> None | Some e \<Rightarrow> annotations (metadata e)) of
        None \<Rightarrow> (st1, pre, Returned)
      | Some anns \<Rightarrow>
          (case side_effects w st1 (d\<lparr>feedbackId := Some i\<rparr>) anns
                  (entityRoute (origin req) entityRef) of
             (st2, tr2, out2) \<Rightarrow> (st2, pre @ tr2, out2)))"
proof -
  have "s \<noteq> []" using assms(2) by (rule trim_nonempty)
  then show ?thesis using assms
    by (simp add: post_handler_def send_json_def storeFeedbackGetUuid_def Let_def
        split: option.splits)
qed

lemma post_handler_refused:
  assumes "summary (req_body req) = Some s" and "trim s \<noteq> []"
    and "getEntityByRef w (projectId (req_body req)) = Inr entityRef"
    and "insert_answer w = None"
  shows "post_handler w st req =
     (st, [CatalogGetEntityByRef (projectId (req_body req)),
           StoreInsert (demote_summary entityRef (stamp w (req_body req))),
           Respond 500 (ErrorBody (''Failed to create '' @ typeWord (req_body req)))], Returned)"
proof -
  have "s \<noteq> []" using assms(2) by (rule trim_nonempty)
  then show ?thesis using assms
    by (simp add: post_handler_def send_json_def storeFeedbackGetUuid_def Let_def)
qed

lemma post_stored_row:
  assumes "summary (req_body req) = Some s" and "trim s \<noteq> []"
    and "getEntityByRef w (projectId (req_body req)) = Inr entityRef"
    and "insert_answer w = Some i"
    and "d = demote_summary entityRef (stamp w (req_body req))"
  shows "\<exists>u. rows (fst (post_handler w st req)) i = Some (d\<lparr>feedbackId := Some i, ticketUrl := u\<rparr>)"
proof (cases "case entityRef of None \<Rightarrow> None | Some e \<Rightarrow> annotations (metadata e)")
  case None
  then have "rows (fst (post_handler w st req)) i = Some (d\<lparr>feedbackId := Some i\<rparr>)"
    using post_handler_stored[OF assms(1-5) refl refl, of st] by simp
  then have "rows (fst (post_handler w st req)) i
      = Some (d\<lparr>feedbackId := Some i, ticketUrl := ticketUrl d\<rparr>)"
    by simp
  then show ?thesis by blast
next
  case (Some anns)
  define st1 where "st1 = st\<lparr>rows := (rows st)(i \<mapsto> d\<lparr>feedbackId := Some i\<rparr>)\<rparr>"
  obtain st2 tr2 out2 where se:
    "side_effects w st1 (d\<lparr>feedbackId := Some i\<rparr>) anns (entityRoute (origin req) entityRef)
       = (st2, tr2, out2)"
    by (cases "side_effects w st1 (d\<lparr>feedbackId := Some i\<rparr>) anns
        (entityRoute (origin req) entityRef)") auto
  have fin: "fst (post_handler w st req) = st2"
    using post_handler_stored[OF assms(1-5) refl refl, of st] Some se
    by (simp add: st1_def)
  from side_effects_store[OF se]
  consider "st2 = st1"
    | u where "st2 = fst (updateFeedback st1 (d\<lparr>feedbackId := Some i, ticketUrl := Some u\<rparr>))"
    by auto
  then show ?thesis
  proof cases
    case 1
    then have "rows (fst (post_handler w st req)) i
      = Some (d\<lparr>feedbackId := Some i, ticketUrl := ticketUrl d\<rparr>)"
      using fin by (simp add: st1_def)
    then show ?thesis by blast
  next
    case 2
    have "rows st2 i = Some (d\<lparr>feedbackId := Some i, ticketUrl := Some u\<rparr>)"
      unfolding 2 st1_def
      using update_after_insert[of "d\<lparr>feedbackId := Some i\<rparr>" i st u] by simp
    then show ?thesis using fin by auto
  qed
qed

lemma post_config_policy: "post_serviceConfig h cfgs = spec_host_policy h cfgs"
  unfolding post_serviceConfig_def spec_host_policy_def find_as_filter host_pred_commute
  by (cases cfgs; cases "filter (\<lambda>c. Some (host c) = h) cfgs") (simp_all add: at_index_def)

lemma ticket_config_policy: "ticket_serviceConfig h cfgs = spec_host_policy h cfgs"
  unfolding ticket_serviceConfig_def spec_host_policy_def find_as_filter host_pred_commute
  by (cases cfgs; cases "filter (\<lambda>c. Some (host c) = h) cfgs") (simp_all add: at_index_def)

lemma post_handler_annotated:
  assumes "summary (req_body req) = Some s" and "trim s \<noteq> []"
    and "getEntityByRef w (projectId (req_body req)) = Inr (Some e)"
    and "annotations (metadata e) = Some anns"
    and "insert_answer w = Some i"
    and "d = (demote_summary (Some e) (stamp w (req_body req)))\<lparr>feedbackId := Some i\<rparr>"
    and "route = entityRoute (origin req) (Some e)"
    and "side_effects w (st\<lparr>rows := (rows st)(i \<mapsto> d)\<rparr>) d anns route = (st2, tr2, out2)"
  shows "post_handler w st req =
     (st2,
      [CatalogGetEntityByRef (projectId (req_body req)),
       StoreInsert (demote_summary (Some e) (stamp w (req_body req))),
       Respond 201 (DataBody (FeedbackData d) (typeWord (req_body req) @ '' created successfully''))]
        @ tr2,
      out2)"
  using post_handler_stored[OF assms(1-3) assms(5) refl refl refl, of st] assms(4,6,7,8)
  by simp

lemma mail_options_fields:
  "to (mail_options w d em reply appTitle route) = em"
  "replyTo (mail_options w d em reply appTitle route) = reply"
  "subject (mail_options w d em reply appTitle route) =
     interp (tag d) @ '' - '' @ typeWord d @ '' reported for '' @ interp (second_segment (projectId d))"
  by (simp_all add: mail_options_def)

text \<open>Evaluations on the sample data.\<close>

lemma trim_sample: "trim ''Broken link'' \<noteq> []"
  by (simp add: trim_def is_space_def)

lemma upper_sample: "toUpperCase ''Jira'' = ''JIRA''"
  by code_simp

lemma positive_bad: "\<not> matches_positive ''Bad''"
  by (simp add: matches_positive_def)

lemma positive_good: "matches_positive ''Very Good''"
  by (simp add: matches_positive_def)

lemma sample_world_facts:
  "summary (req_body sample_request) = Some ''Broken link''"
  "getEntityByRef sample_world (projectId (req_body sample_request)) = Inr (Some shop_entity)"
  "annotations (metadata shop_entity) = Some shop_annotations"
  "shop_annotations ''feedback/type'' = Some ''Jira''"
  "insert_answer sample_world = Some ''f1''"
  "tag (req_body sample_request) = Some ''Bad''"
  "getEntityByRef sample_world (createdBy (req_body sample_request)) = Inr (Some jo_entity)"
  "reporterEmail_of (Some jo_entity) = Inr (Some ''jo@example.com'')"
  "app_title sample_world = Some ''Portal''"
  "jira_integrations sample_world =
     Some [\<lparr> host = ''https://other.host'', token = ''t0'' \<rparr>,
           \<lparr> host = ''https://jira.host'', token = ''t1'' \<rparr>]"
  "spec_host_policy (shop_annotations ''feedback/host'')
     [\<lparr> host = ''https://other.host'', token = ''t0'' \<rparr>,
      \<lparr> host = ''https://jira.host'', token = ''t1'' \<rparr>]
     = Some \<lparr> host = ''https://jira.host'', token = ''t1'' \<rparr>"
  "getJiraUsernameByEmail sample_world h em' tk = Inr (Some ''jo'')"
  "createJiraTicket sample_world c = Inr ''SHOP-1''"
  "(demote_summary (Some shop_entity) (stamp sample_world (req_body sample_request)))
      \<lparr>feedbackId := Some ''f1''\<rparr> = sample_feedback"
  by (simp_all add: sample_request_def submission_def sample_world_def sample_catalog_def
      shop_entity_def shop_annotations_def jo_entity_def reporterEmail_of_def
      spec_host_policy_def demote_summary_def stamp_def sample_feedback_def)

lemma praise_facts:
  "summary (req_body praise_request) = Some ''Broken link''"
  "getEntityByRef sample_world (projectId (req_body praise_request)) = Inr (Some shop_entity)"
  "tag (req_body praise_request) = Some ''Very Good''"
  by (simp_all add: praise_request_def sample_request_def submission_def sample_world_def
      sample_catalog_def)

section \<open>GET /:id and DELETE /:id: what holds and what does not\<close>

lemma delete_absent:
  "\<not> checkFeedbackId st i \<Longrightarrow>
   delete_handler st i =
     (st, [StoreCheck i, LogError (''No feedback found for id '' @ i),
           Respond 404 (MessageBody (''No feedback found for id '' @ i))], Returned)"
  by (simp add: delete_handler_def send_json_def)

lemma delete_present:
  "checkFeedbackId st i \<Longrightarrow>
   delete_handler st i =
     (deleteFeedbackById st i,
      [StoreCheck i, StoreDelete i, Respond 200 (MessageBody ''Deleted successfully''),
       LogError (''No feedback found for id '' @ i),
       Respond 404 (MessageBody (''No feedback found for id '' @ i))],
      Raised ERR_HTTP_HEADERS_SENT)"
  by (simp add: delete_handler_def send_json_def)

lemma delete_present_wire:
  "checkFeedbackId st i \<Longrightarrow>
   wire_response (fst (snd (delete_handler st i)))
     = Some (Respond 200 (MessageBody ''Deleted successfully''))"
  by (simp add: delete_present wire_response_def)

lemma delete_then_get:
  "get_handler (fst (delete_handler st i)) i =
     (fst (delete_handler st i),
      [StoreCheck i, Respond 404 (ErrorBody (''No feedback found for id '' @ i))], Returned)"
  by (simp add: delete_handler_def get_handler_def send_json_def checkFeedbackId_def
      deleteFeedbackById_def split: prod.splits)

text \<open>
  C1 (the code at an id that exists). \<^verbatim>\<open>DELETE /f1\<close> on a store holding \<^verbatim>\<open>f1\<close> deletes the
  record and calls \<^verbatim>\<open>res.status(200).json\<close>, then falls through: it logs that no feedback
  was found and calls \<^verbatim>\<open>res.status(404).json\<close> as well, which Express refuses, so the handler
  ends in an error. The handler makes two response calls, not a single 200, and makes the
  404 call for a record that existed.
\<close>

theorem delete_existing_responds_twice:
  "delete_handler sample_store ''f1'' =
     (empty_store,
      [StoreCheck ''f1'', StoreDelete ''f1'',
       Respond 200 (MessageBody ''Deleted successfully''),
       LogError ''No feedback found for id f1'',
       Respond 404 (MessageBody ''No feedback found for id f1'')],
      Raised ERR_HTTP_HEADERS_SENT)"
  by (simp add: delete_handler_def send_json_def checkFeedbackId_def deleteFeedbackById_def
      sample_store_def empty_store_def)

section \<open>POST /: the response and the side effects\<close>

text \<open>
  C2. In every run of \<^verbatim>\<open>POST /\<close> that stores the record (the summary is valid, the catalog
  answers, the insert succeeds with id \<open>i\<close>), the calls of the handler are the catalog
  lookup, the insert and the 201 response carrying the stored record, followed by the rest;
  the two calls before the 201 are no side effects and the rest holds no further response.
  So every ticket-creation call, store update and mail
  send comes after the 201, and the response the client receives is that 201 whatever the
  tracker, the mailer and the second catalog lookup do.
\<close>

theorem post_response_precedes_side_effects:
  assumes "summary (req_body req) = Some s" and "trim s \<noteq> []"
    and "getEntityByRef w (projectId (req_body req)) = Inr entityRef"
    and "insert_answer w = Some i"
    and "d = demote_summary entityRef (stamp w (req_body req))"
    and "r = Respond 201 (DataBody (FeedbackData (d\<lparr>feedbackId := Some i\<rparr>))
                              (typeWord (req_body req) @ '' created successfully''))"
  shows "\<exists>rest. fst (snd (post_handler w st req)) =
            [CatalogGetEntityByRef (projectId (req_body req)), StoreInsert d, r] @ rest
          \<and> \<not> list_ex is_side_effect [CatalogGetEntityByRef (projectId (req_body req)), StoreInsert d]
          \<and> \<not> list_ex is_respond rest
          \<and> wire_response (fst (snd (post_handler w st req))) = Some r"
proof (cases "case entityRef of None \<Rightarrow> None | Some e \<Rightarrow> annotations (metadata e)")
  case None
  then show ?thesis
    using post_handler_stored[OF assms(1-5) refl refl, of st] assms(6)
    by (simp add: wire_response_def)
next
  case (Some anns)
  obtain st2 tr2 out2 where se:
    "side_effects w (st\<lparr>rows := (rows st)(i \<mapsto> d\<lparr>feedbackId := Some i\<rparr>)\<rparr>)
        (d\<lparr>feedbackId := Some i\<rparr>) anns (entityRoute (origin req) entityRef) = (st2, tr2, out2)"
    by (cases "side_effects w (st\<lparr>rows := (rows st)(i \<mapsto> d\<lparr>feedbackId := Some i\<rparr>)\<rparr>)
        (d\<lparr>feedbackId := Some i\<rparr>) anns (entityRoute (origin req) entityRef)") auto
  have "\<not> list_ex is_respond tr2" using side_effects_events[OF se] by simp
  then show ?thesis
    using post_handler_stored[OF assms(1-5) refl refl, of st] assms(6) Some se
    by (simp add: wire_response_def)
qed

lemma sample_catalog_shop:
  "getEntityByRef tracker_down_world (projectId (req_body sample_request)) = Inr (Some shop_entity)"
  by (simp add: tracker_down_world_def sample_world_def sample_request_def submission_def
      sample_catalog_def)

lemma sample_prepared:
  "(demote_summary (Some shop_entity) (stamp tracker_down_world (req_body sample_request)))
      \<lparr>feedbackId := Some ''f1''\<rparr> = sample_feedback"
  by (simp add: demote_summary_def stamp_def tracker_down_world_def sample_world_def
      sample_request_def submission_def sample_feedback_def)

theorem post_response_precedes_side_effects_witness:
  "wire_response (fst (snd (post_handler tracker_down_world empty_store sample_request)))
     = Some (Respond 201 (DataBody (FeedbackData sample_feedback) ''Issue created successfully''))
   \<and> snd (snd (post_handler tracker_down_world empty_store sample_request))
     = Raised (Rejected ''Request failed with status code 503'')"
proof -
  have a: "summary (req_body sample_request) = Some ''Broken link''"
    by (simp add: sample_request_def submission_def)
  have b: "insert_answer tracker_down_world = Some ''f1''"
    by (simp add: tracker_down_world_def sample_world_def)
  have c: "typeWord (req_body sample_request) = ''Issue''"
    by (simp add: typeWord_def sample_request_def submission_def)
  have "wire_response (fst (snd (post_handler tracker_down_world empty_store sample_request)))
     = Some (Respond 201 (DataBody (FeedbackData sample_feedback) ''Issue created successfully''))"
    using post_response_precedes_side_effects[OF a trim_sample sample_catalog_shop b refl refl,
        of empty_store]
    by (auto simp add: sample_prepared c)
  moreover have "snd (snd (post_handler tracker_down_world empty_store sample_request))
     = Raised (Rejected ''Request failed with status code 503'')"
    by code_simp
  ultimately show ?thesis by simp
qed

section \<open>POST /: validation and store failure\<close>

text \<open>
  C5. When the body has no summary, or a summary that trims to the empty string,
  \<^verbatim>\<open>POST /\<close> answers 500 with \<^verbatim>\<open>{error: 'Summary field empty'}\<close> and does nothing else: the
  response is the only call of the handler (no catalog lookup, no insert, no ticket, no
  mail) and the store is unchanged.
\<close>

theorem post_empty_summary_refused:
  assumes "summary (req_body req) = None \<or> (\<exists>s. summary (req_body req) = Some s \<and> trim s = [])"
  shows "post_handler w st req = (st, [Respond 500 (ErrorBody ''Summary field empty'')], Returned)"
  using assms by (auto simp: post_handler_def send_json_def)

theorem post_empty_summary_refused_witness:
  "post_handler sample_world sample_store (sample_request\<lparr>req_body := submission\<lparr>summary := Some ''   ''\<rparr>\<rparr>)
     = (sample_store, [Respond 500 (ErrorBody ''Summary field empty'')], Returned)
   \<and> post_handler sample_world sample_store (sample_request\<lparr>req_body := submission\<lparr>summary := None\<rparr>\<rparr>)
     = (sample_store, [Respond 500 (ErrorBody ''Summary field empty'')], Returned)"
proof -
  have "trim ''   '' = []" by (simp add: trim_def is_space_def)
  then have "post_handler sample_world sample_store (sample_request\<lparr>req_body := submission\<lparr>summary := Some ''   ''\<rparr>\<rparr>)
     = (sample_store, [Respond 500 (ErrorBody ''Summary field empty'')], Returned)"
    using post_empty_summary_refused[of "sample_request\<lparr>req_body := submission\<lparr>summary := Some ''   ''\<rparr>\<rparr>"
        sample_world sample_store]
    by simp
  moreover have "post_handler sample_world sample_store (sample_request\<lparr>req_body := submission\<lparr>summary := None\<rparr>\<rparr>)
     = (sample_store, [Respond 500 (ErrorBody ''Summary field empty'')], Returned)"
    using post_empty_summary_refused[of "sample_request\<lparr>req_body := submission\<lparr>summary := None\<rparr>\<rparr>"
        sample_world sample_store]
    by simp
  ultimately show ?thesis by simp
qed

text \<open>
  C6. When the summary is valid, the catalog answers and the store returns the failure
  sentinel, \<^verbatim>\<open>POST /\<close> answers 500 with \<^verbatim>\<open>{error: 'Failed to create Feedback'}\<close> (or
  \<^verbatim>\<open>Issue\<close>): the calls are the catalog lookup, the insert and that response, with no ticket
  creation, no mail and no store update, and the store is unchanged.
\<close>

theorem post_store_failure:
  assumes "summary (req_body req) = Some s" and "trim s \<noteq> []"
    and "getEntityByRef w (projectId (req_body req)) = Inr entityRef"
    and "insert_answer w = None"
  shows "post_handler w st req =
     (st, [CatalogGetEntityByRef (projectId (req_body req)),
           StoreInsert (demote_summary entityRef (stamp w (req_body req))),
           Respond 500 (ErrorBody (''Failed to create '' @ typeWord (req_body req)))], Returned)"
  using assms by (rule post_handler_refused)

lemma failing_store_catalog:
  "getEntityByRef failing_store_world (projectId (req_body sample_request)) = Inr (Some shop_entity)"
  by (simp add: failing_store_world_def sample_world_def sample_request_def submission_def
      sample_catalog_def)

theorem post_store_failure_witness:
  "post_handler failing_store_world empty_store sample_request =
     (empty_store,
      [CatalogGetEntityByRef (Some ''component:default/shop''),
       StoreInsert (sample_feedback\<lparr>feedbackId := None\<rparr>),
       Respond 500 (ErrorBody ''Failed to create Issue'')], Returned)"
proof -
  have a: "summary (req_body sample_request) = Some ''Broken link''"
    by (simp add: sample_request_def submission_def)
  have b: "insert_answer failing_store_world = None"
    by (simp add: failing_store_world_def sample_world_def)
  show ?thesis
    using post_store_failure[OF a trim_sample failing_store_catalog b, of empty_store]
    by (simp add: demote_summary_def shop_entity_def stamp_def failing_store_world_def sample_world_def
      sample_request_def submission_def sample_feedback_def typeWord_def)
qed

section \<open>POST / for an entity without annotations\<close>

text \<open>
  C10, as the code has it. When the catalog knows no entity for the project, or an entity
  without annotations, a \<^verbatim>\<open>POST /\<close> that stores the record makes three calls, the catalog
  lookup, the insert and the 201 response, and returns: no ticket creation, no mail, no store
  update. The store is the one the insert left, so the record under the new id is the
  inserted one, field by field, and its \<^verbatim>\<open>ticketUrl\<close> is the one submitted: absent when the
  submission carries none.
\<close>

theorem post_without_annotations:
  assumes "summary (req_body req) = Some s" and "trim s \<noteq> []"
    and "getEntityByRef w (projectId (req_body req)) = Inr entityRef"
    and "entityRef = None \<or> (\<exists>e. entityRef = Some e \<and> annotations (metadata e) = None)"
    and "insert_answer w = Some i"
    and "d = demote_summary entityRef (stamp w (req_body req))"
  shows "post_handler w st req =
           (fst (storeFeedbackGetUuid (Some i) st d),
            [CatalogGetEntityByRef (projectId (req_body req)), StoreInsert d,
             Respond 201 (DataBody (FeedbackData (d\<lparr>feedbackId := Some i\<rparr>))
                              (typeWord (req_body req) @ '' created successfully''))],
            Returned)
         \<and> rows (fst (post_handler w st req)) i = Some (d\<lparr>feedbackId := Some i\<rparr>)
         \<and> ticketUrl (d\<lparr>feedbackId := Some i\<rparr>) = ticketUrl (req_body req)"
proof -
  have "(case entityRef of None \<Rightarrow> None | Some e \<Rightarrow> annotations (metadata e)) = None"
    using assms(4) by auto
  then have "post_handler w st req =
           (st\<lparr>rows := (rows st)(i \<mapsto> d\<lparr>feedbackId := Some i\<rparr>)\<rparr>,
            [CatalogGetEntityByRef (projectId (req_body req)), StoreInsert d,
             Respond 201 (DataBody (FeedbackData (d\<lparr>feedbackId := Some i\<rparr>))
                              (typeWord (req_body req) @ '' created successfully''))],
            Returned)"
    using post_handler_stored[OF assms(1-3) assms(5) assms(6) refl refl, of st] by simp
  moreover have "ticketUrl d = ticketUrl (req_body req)"
    using assms(6) by simp
  ultimately show ?thesis
    by (simp add: storeFeedbackGetUuid_def Let_def)
qed

theorem post_without_annotations_witness:
  "post_handler bare_world empty_store sample_request =
     (sample_store,
      [CatalogGetEntityByRef (Some ''component:default/shop''),
       StoreInsert (sample_feedback\<lparr>feedbackId := None\<rparr>),
       Respond 201 (DataBody (FeedbackData sample_feedback) ''Issue created successfully'')],
      Returned)
   \<and> map_option ticketUrl (rows (fst (post_handler bare_world empty_store sample_request)) ''f1'')
       = Some None"
proof -
  have a: "summary (req_body sample_request) = Some ''Broken link''"
    by (simp add: sample_request_def submission_def)
  have b: "insert_answer bare_world = Some ''f1''"
    by (simp add: bare_world_def sample_world_def)
  have c: "getEntityByRef bare_world (projectId (req_body sample_request)) = Inr None"
    by (simp add: bare_world_def sample_world_def)
  have d: "demote_summary None (stamp bare_world (req_body sample_request))
             = sample_feedback\<lparr>feedbackId := None\<rparr>"
    by (simp add: demote_summary_def stamp_def bare_world_def sample_world_def
      sample_request_def submission_def sample_feedback_def)
  have e: "typeWord (req_body sample_request) = ''Issue''"
    by (simp add: typeWord_def sample_request_def submission_def)
  have f: "ticketUrl (req_body sample_request) = None"
      "projectId (req_body sample_request) = Some ''component:default/shop''"
    by (simp_all add: sample_request_def submission_def)
  show ?thesis
    using post_without_annotations[OF a trim_sample c _ b refl, of empty_store]
    by (simp add: d e f storeFeedbackGetUuid_def Let_def empty_store_def sample_store_def
        sample_feedback_def)
qed

text \<open>
  The claim says the \<^verbatim>\<open>ticketUrl\<close> remains absent. The handler hands the body to the store as
  it came: a submission that carries a \<^verbatim>\<open>ticketUrl\<close>, for a project the catalog does not
  know, is stored with it, with no side effect.
\<close>

theorem post_without_annotations_counterexample:
  "getEntityByRef bare_world (projectId (req_body ticketed_request)) = Inr None
   \<and> fst (snd (post_handler bare_world empty_store ticketed_request))
       = [CatalogGetEntityByRef (Some ''component:default/shop''),
          StoreInsert (sample_feedback\<lparr>feedbackId := None,
             ticketUrl := Some ''https://jira.host/browse/OLD-7''\<rparr>),
          Respond 201 (DataBody
             (FeedbackData (sample_feedback\<lparr>ticketUrl := Some ''https://jira.host/browse/OLD-7''\<rparr>))
             ''Issue created successfully'')]
   \<and> snd (snd (post_handler bare_world empty_store ticketed_request)) = Returned
   \<and> map_option ticketUrl (rows (fst (post_handler bare_world empty_store ticketed_request)) ''f1'')
       = Some (Some ''https://jira.host/browse/OLD-7'')"
proof -
  have a: "getEntityByRef bare_world (projectId (req_body ticketed_request)) = Inr None"
    by (simp add: bare_world_def sample_world_def)
  have b: "fst (snd (post_handler bare_world empty_store ticketed_request))
       = [CatalogGetEntityByRef (Some ''component:default/shop''),
          StoreInsert (sample_feedback\<lparr>feedbackId := None,
             ticketUrl := Some ''https://jira.host/browse/OLD-7''\<rparr>),
          Respond 201 (DataBody
             (FeedbackData (sample_feedback\<lparr>ticketUrl := Some ''https://jira.host/browse/OLD-7''\<rparr>))
             ''Issue created successfully'')]"
    by code_simp
  have c: "snd (snd (post_handler bare_world empty_store ticketed_request)) = Returned"
    by code_simp
  have d: "map_option ticketUrl (rows (fst (post_handler bare_world empty_store ticketed_request)) ''f1'')
       = Some (Some ''https://jira.host/browse/OLD-7'')"
    by code_simp
  from a b c d show ?thesis by (intro conjI)
qed

section \<open>Host resolution in the two endpoints\<close>

text \<open>
  The calls each endpoint makes to the tracker once the configuration is resolved, and the
  whole run of \<^verbatim>\<open>GET /:id/ticket\<close> when the tracker answers.
\<close>

lemma ticket_handler_resolved:
  assumes "truthy (Some ticketId)" and "truthy ref"
    and "getEntityByRef w ref = Inr (Some e)"
    and "annotations (metadata e) = Some anns"
    and "map_option toLowerCase (anns ''feedback/type'') = Some ''jira''"
    and "jira_integrations w = Some cfgs"
    and "spec_host_policy (anns ''feedback/host'') cfgs = Some cfg"
    and "getTicketDetails w (host cfg) ticketId (token cfg) = Inr resp"
  shows "ticket_handler w (Some ticketId) ref =
     ([CatalogGetEntityByRef ref, JiraTicketDetails (host cfg) ticketId (token cfg),
       Respond 200 (DataBody (TicketData resp) ''fetched successfully'')], Returned)"
  using assms
  by (simp add: ticket_handler_def Let_def send_json_def interp_def
      ticket_config_policy[symmetric])

lemma jira_branch_target:
  assumes "jira_integrations w = Some cfgs"
    and "post_serviceConfig (anns ''feedback/host'') cfgs = Some cfg"
  shows "\<exists>st' rest r. jira_branch w st d anns em appTitle route
            = (st', JiraUsernameLookup (host cfg) em (token cfg) # rest, r)
          \<and> list_all (addressed_to cfg) rest"
  using assms
  by (auto simp: jira_branch_def Let_def ticket_call_def addressed_to_def
      split: option.splits sum.splits)

lemma ticket_handler_target:
  assumes "jira_integrations w = Some cfgs"
    and "annotations (metadata e) = Some anns"
    and "ticket_serviceConfig (anns ''feedback/host'') cfgs = Some cfg"
    and "truthy (Some ticketId)" and "truthy ref"
    and "getEntityByRef w ref = Inr (Some e)"
    and "map_option toLowerCase (anns ''feedback/type'') = Some ''jira''"
  shows "\<exists>rest. fst (ticket_handler w (Some ticketId) ref)
            = [CatalogGetEntityByRef ref, JiraTicketDetails (host cfg) ticketId (token cfg)] @ rest
          \<and> list_all (addressed_to cfg) rest"
  using assms
  by (auto simp: ticket_handler_def Let_def send_json_def interp_def addressed_to_def
      split: sum.splits)

lemma post_handler_target:
  assumes "jira_integrations w = Some cfgs"
    and "annotations (metadata e) = Some anns"
    and "post_serviceConfig (anns ''feedback/host'') cfgs = Some cfg"
    and "summary (req_body req) = Some s" and "trim s \<noteq> []"
    and "getEntityByRef w (projectId (req_body req)) = Inr (Some e)"
    and "insert_answer w = Some i"
    and "anns ''feedback/type'' = Some ty" and "toUpperCase ty = ''JIRA''"
    and "\<not> (case tag (req_body req) of None \<Rightarrow> False | Some t \<Rightarrow> matches_positive t)"
    and "getEntityByRef w (createdBy (req_body req)) = Inr rep" and "reporterEmail_of rep = Inr em"
    and "app_title w = Some appTitle"
  shows "\<exists>pre rest. fst (snd (post_handler w st req))
            = pre @ JiraUsernameLookup (host cfg) em (token cfg) # rest
          \<and> list_all (\<lambda>x. tracker_target x = None) pre
          \<and> list_all (addressed_to cfg) rest"
proof -
  define d where "d = (demote_summary (Some e) (stamp w (req_body req)))\<lparr>feedbackId := Some i\<rparr>"
  define route where "route = entityRoute (origin req) (Some e)"
  define st1 where "st1 = st\<lparr>rows := (rows st)(i \<mapsto> d)\<rparr>"
  have tagd: "tag d = tag (req_body req)" and cb: "createdBy d = createdBy (req_body req)"
    by (simp_all add: d_def)
  from jira_branch_target[where w = w and anns = anns and cfgs = cfgs and cfg = cfg and st = st1
      and d = d and em = em and appTitle = appTitle and route = route, OF assms(1) assms(3)]
  obtain st' rest r where jb: "jira_branch w st1 d anns em appTitle route
            = (st', JiraUsernameLookup (host cfg) em (token cfg) # rest, r)"
      and rest: "list_all (addressed_to cfg) rest"
    by blast
  have ts: "tracker_step w st1 d anns ty em appTitle route
            = (st', JiraUsernameLookup (host cfg) em (token cfg) # rest, r)"
    using assms(9,10) tagd jb by (simp add: tracker_step_def)
  obtain tl out where se: "side_effects w st1 d anns route
      = (st', CatalogGetEntityByRef (createdBy d) # JiraUsernameLookup (host cfg) em (token cfg) # rest @ tl, out)"
    and tl: "list_all (addressed_to cfg) tl"
    using side_effects_run[of w d rep em appTitle anns ty st1 route] assms(8,11,12,13) cb ts
    by (cases r) (auto simp: addressed_to_def)
  have "fst (snd (post_handler w st req)) =
      [CatalogGetEntityByRef (projectId (req_body req)),
       StoreInsert (demote_summary (Some e) (stamp w (req_body req))),
       Respond 201 (DataBody (FeedbackData d) (typeWord (req_body req) @ '' created successfully'')),
       CatalogGetEntityByRef (createdBy d)]
      @ JiraUsernameLookup (host cfg) em (token cfg) # (rest @ tl)"
    using post_handler_annotated[OF assms(4,5,6) assms(2) assms(7) d_def route_def se[unfolded st1_def]]
    by simp
  moreover have "list_all (\<lambda>x. tracker_target x = None)
      [CatalogGetEntityByRef (projectId (req_body req)),
       StoreInsert (demote_summary (Some e) (stamp w (req_body req))),
       Respond 201 (DataBody (FeedbackData d) (typeWord (req_body req) @ '' created successfully'')),
       CatalogGetEntityByRef (createdBy d)]"
    by simp
  moreover have "list_all (addressed_to cfg) (rest @ tl)"
    using rest tl by simp
  ultimately show ?thesis by blast
qed

text \<open>
  C7. Let \<open>cfg\<close> be the entry the spec's policy gives for the entity's \<^verbatim>\<open>feedback/host\<close>
  annotation and the configured entries: the entry whose host equals the annotation when
  there is one, otherwise the first configured entry. In \<^verbatim>\<open>POST /\<close>, whenever the run reaches
  the tracker branch (the record is stored, the type upper-cases to \<^verbatim>\<open>JIRA\<close>, the tag is not
  positive, the reporter and the application title resolve), the first tracker call is the
  username lookup with the host and the token of \<open>cfg\<close>, no tracker call comes before it, and
  every later tracker call is made with the host and the token of \<open>cfg\<close>. In
  \<^verbatim>\<open>GET /:id/ticket\<close>, whenever the run reaches the tracker (both query parameters given, the
  type lower-cases to \<^verbatim>\<open>jira\<close>), the calls are the catalog lookup and the ticket fetch with
  the host and the token of \<open>cfg\<close>. And the two resolutions are the policy on every
  annotation and every list of entries, so the endpoints resolve alike.
\<close>

theorem host_resolution_shared:
  assumes "jira_integrations w = Some cfgs"
    and "annotations (metadata e) = Some anns"
    and "spec_host_policy (anns ''feedback/host'') cfgs = Some cfg"
  shows "(summary (req_body req) = Some s \<and> trim s \<noteq> []
          \<and> getEntityByRef w (projectId (req_body req)) = Inr (Some e)
          \<and> insert_answer w = Some i
          \<and> anns ''feedback/type'' = Some ty \<and> toUpperCase ty = ''JIRA''
          \<and> \<not> (case tag (req_body req) of None \<Rightarrow> False | Some t \<Rightarrow> matches_positive t)
          \<and> getEntityByRef w (createdBy (req_body req)) = Inr rep \<and> reporterEmail_of rep = Inr em
          \<and> app_title w = Some appTitle
          \<longrightarrow> (\<exists>pre rest. fst (snd (post_handler w st req))
                    = pre @ JiraUsernameLookup (host cfg) em (token cfg) # rest
                  \<and> list_all (\<lambda>x. tracker_target x = None) pre
                  \<and> list_all (addressed_to cfg) rest))
       \<and> (truthy (Some ticketId) \<and> truthy ref
          \<and> getEntityByRef w ref = Inr (Some e)
          \<and> map_option toLowerCase (anns ''feedback/type'') = Some ''jira''
          \<longrightarrow> (\<exists>rest. fst (ticket_handler w (Some ticketId) ref)
                    = [CatalogGetEntityByRef ref,
                       JiraTicketDetails (host cfg) ticketId (token cfg)] @ rest
                  \<and> list_all (addressed_to cfg) rest))
       \<and> post_serviceConfig h cfgs = spec_host_policy h cfgs
       \<and> ticket_serviceConfig h cfgs = spec_host_policy h cfgs"
proof (intro conjI impI)
  have pc: "post_serviceConfig (anns ''feedback/host'') cfgs = Some cfg"
    and tc: "ticket_serviceConfig (anns ''feedback/host'') cfgs = Some cfg"
    using assms(3) by (simp_all add: post_config_policy ticket_config_policy)
  show "post_serviceConfig h cfgs = spec_host_policy h cfgs"
    by (rule post_config_policy)
  show "ticket_serviceConfig h cfgs = spec_host_policy h cfgs"
    by (rule ticket_config_policy)
  {
    assume a: "summary (req_body req) = Some s \<and> trim s \<noteq> []
          \<and> getEntityByRef w (projectId (req_body req)) = Inr (Some e)
          \<and> insert_answer w = Some i
          \<and> anns ''feedback/type'' = Some ty \<and> toUpperCase ty = ''JIRA''
          \<and> \<not> (case tag (req_body req) of None \<Rightarrow> False | Some t \<Rightarrow> matches_positive t)
          \<and> getEntityByRef w (createdBy (req_body req)) = Inr rep \<and> reporterEmail_of rep = Inr em
          \<and> app_title w = Some appTitle"
    show "\<exists>pre rest. fst (snd (post_handler w st req))
                    = pre @ JiraUsernameLookup (host cfg) em (token cfg) # rest
                  \<and> list_all (\<lambda>x. tracker_target x = None) pre
                  \<and> list_all (addressed_to cfg) rest"
      using a by (intro post_handler_target[OF assms(1,2) pc]) blast+
  }
  {
    assume b: "truthy (Some ticketId) \<and> truthy ref
          \<and> getEntityByRef w ref = Inr (Some e)
          \<and> map_option toLowerCase (anns ''feedback/type'') = Some ''jira''"
    show "\<exists>rest. fst (ticket_handler w (Some ticketId) ref)
                    = [CatalogGetEntityByRef ref,
                       JiraTicketDetails (host cfg) ticketId (token cfg)] @ rest
                  \<and> list_all (addressed_to cfg) rest"
      using b by (intro ticket_handler_target[OF assms(1,2) tc]) blast+
  }
qed

theorem host_resolution_shared_witness:
  "(\<exists>pre rest. fst (snd (post_handler sample_world empty_store sample_request))
        = pre @ JiraUsernameLookup ''https://jira.host'' (Some ''jo@example.com'') ''t1'' # rest
      \<and> list_all (\<lambda>x. tracker_target x = None) pre
      \<and> list_all (addressed_to \<lparr> host = ''https://jira.host'', token = ''t1'' \<rparr>) rest)
   \<and> (\<exists>rest. fst (ticket_handler sample_world (Some ''SHOP-1'') (Some ''component:default/shop''))
        = [CatalogGetEntityByRef (Some ''component:default/shop''),
           JiraTicketDetails ''https://jira.host'' ''SHOP-1'' ''t1''] @ rest
      \<and> list_all (addressed_to \<lparr> host = ''https://jira.host'', token = ''t1'' \<rparr>) rest)
   \<and> List.map_filter tracker_target (fst (snd (post_handler sample_world empty_store sample_request)))
       = [(''https://jira.host'', ''t1''), (''https://jira.host'', ''t1'')]
   \<and> List.map_filter tracker_target (fst (snd (post_handler plain_world empty_store sample_request)))
       = [(''https://other.host'', ''t0''), (''https://other.host'', ''t0'')]
   \<and> List.map_filter tracker_target
         (fst (ticket_handler plain_world (Some ''SHOP-1'') (Some ''component:default/shop'')))
       = [(''https://other.host'', ''t0'')]"
proof -
  note f = sample_world_facts
  note th = host_resolution_shared[OF f(10) f(3) f(11),
      where req = sample_request and s = "''Broken link''" and i = "''f1''" and ty = "''Jira''"
        and rep = "Some jo_entity" and em = "Some ''jo@example.com''" and appTitle = "''Portal''"
        and st = empty_store and ticketId = "''SHOP-1''" and ref = "Some ''component:default/shop''"]
  have tg: "\<not> (case tag (req_body sample_request) of None \<Rightarrow> False | Some t \<Rightarrow> matches_positive t)"
    by (simp add: f(6) positive_bad)
  have p: "\<exists>pre rest. fst (snd (post_handler sample_world empty_store sample_request))
        = pre @ JiraUsernameLookup ''https://jira.host'' (Some ''jo@example.com'') ''t1'' # rest
      \<and> list_all (\<lambda>x. tracker_target x = None) pre
      \<and> list_all (addressed_to \<lparr> host = ''https://jira.host'', token = ''t1'' \<rparr>) rest"
    using th[THEN conjunct1] f(1) trim_sample f(2) f(5) f(4) upper_sample tg f(7) f(8) f(9)
    by simp
  have tk: "truthy (Some ''SHOP-1'')" "truthy (Some ''component:default/shop'')"
    "getEntityByRef sample_world (Some ''component:default/shop'') = Inr (Some shop_entity)"
    by (simp_all add: truthy_def sample_world_def sample_catalog_def)
  have lo: "map_option toLowerCase (shop_annotations ''feedback/type'') = Some ''jira''"
    unfolding f(4) by code_simp
  have t: "\<exists>rest. fst (ticket_handler sample_world (Some ''SHOP-1'') (Some ''component:default/shop''))
        = [CatalogGetEntityByRef (Some ''component:default/shop''),
           JiraTicketDetails ''https://jira.host'' ''SHOP-1'' ''t1''] @ rest
      \<and> list_all (addressed_to \<lparr> host = ''https://jira.host'', token = ''t1'' \<rparr>) rest"
    using th[THEN conjunct2, THEN conjunct1] tk lo
    by simp
  have e1: "List.map_filter tracker_target (fst (snd (post_handler sample_world empty_store sample_request)))
       = [(''https://jira.host'', ''t1''), (''https://jira.host'', ''t1'')]"
    by code_simp
  have e2: "List.map_filter tracker_target (fst (snd (post_handler plain_world empty_store sample_request)))
       = [(''https://other.host'', ''t0''), (''https://other.host'', ''t0'')]"
    by code_simp
  have e3: "List.map_filter tracker_target
         (fst (ticket_handler plain_world (Some ''SHOP-1'') (Some ''component:default/shop'')))
       = [(''https://other.host'', ''t0'')]"
    by code_simp
  from p t e1 e2 e3 show ?thesis by (intro conjI)
qed

section \<open>GET /: the page\<close>

text \<open>
  C9. Whenever the store answers the listing, \<^verbatim>\<open>GET /\<close> answers 200 with the store's result,
  \<^verbatim>\<open>currentPage = offset / limit + 1\<close> and \<^verbatim>\<open>pageSize = limit\<close>, in the arithmetic of the
  engine; the store is asked with project \<^verbatim>\<open>'all'\<close>, offset 0 and limit 10 where the query
  parameter is absent.
\<close>

theorem list_page_metadata:
  assumes "getAll (query_projectId q) (query_offset ops q) (query_limit ops q) (query_searchKey q) = Inr fd"
  shows "list_handler ops getAll q =
           Inr (200, \<lparr> feedbackData = fd,
                       currentPage = num_add ops (num_div ops (query_offset ops q) (query_limit ops q)) (num_lit ops 1),
                       pageSize = query_limit ops q \<rparr>)
         \<and> (q_projectId q = None \<longrightarrow> query_projectId q = ''all'')
         \<and> (q_offset q = None \<longrightarrow> query_offset ops q = num_lit ops 0)
         \<and> (q_limit q = None \<longrightarrow> query_limit ops q = num_lit ops 10)"
proof -
  have "list_handler ops getAll q =
           Inr (200, \<lparr> feedbackData = fd,
                       currentPage = num_add ops (num_div ops (query_offset ops q) (query_limit ops q)) (num_lit ops 1),
                       pageSize = query_limit ops q \<rparr>)"
    using assms by (simp add: list_handler_def Let_def)
  moreover have "q_projectId q = None \<longrightarrow> query_projectId q = ''all''"
    by (simp add: query_projectId_def truthy_def)
  moreover have "q_offset q = None \<longrightarrow> query_offset ops q = num_lit ops 0"
    by (simp add: query_offset_def truthy_def)
  moreover have "q_limit q = None \<longrightarrow> query_limit ops q = num_lit ops 10"
    by (simp add: query_limit_def truthy_def)
  ultimately show ?thesis by blast
qed

theorem list_page_metadata_witness:
  "list_handler exact_ops echo_store no_query =
     Inr (200, \<lparr> feedbackData = (''all'', Finite 0, Finite 10, []),
                 currentPage = Finite 1, pageSize = Finite 10 \<rparr>)
   \<and> list_handler exact_ops echo_store (no_query\<lparr>q_offset := Some ''20'', q_limit := Some ''5''\<rparr>) =
     Inr (200, \<lparr> feedbackData = (''all'', Finite 20, Finite 5, []),
                 currentPage = Finite 5, pageSize = Finite 5 \<rparr>)"
proof -
  have a: "query_projectId no_query = ''all''" "query_offset exact_ops no_query = Finite 0"
      "query_limit exact_ops no_query = Finite 10" "query_searchKey no_query = []"
    by (simp_all add: query_projectId_def query_offset_def query_limit_def query_searchKey_def
        no_query_def truthy_def exact_ops_def)
  have b: "query_projectId (no_query\<lparr>q_offset := Some ''20'', q_limit := Some ''5''\<rparr>) = ''all''"
      "query_offset exact_ops (no_query\<lparr>q_offset := Some ''20'', q_limit := Some ''5''\<rparr>) = Finite 20"
      "query_limit exact_ops (no_query\<lparr>q_offset := Some ''20'', q_limit := Some ''5''\<rparr>) = Finite 5"
      "query_searchKey (no_query\<lparr>q_offset := Some ''20'', q_limit := Some ''5''\<rparr>) = []"
    by code_simp+
  have "list_handler exact_ops echo_store no_query =
     Inr (200, \<lparr> feedbackData = (''all'', Finite 0, Finite 10, []),
                 currentPage = Finite 1, pageSize = Finite 10 \<rparr>)"
    using list_page_metadata[of echo_store no_query exact_ops "(''all'', Finite 0, Finite 10, [])"]
    by (simp add: a echo_store_def) (simp add: exact_ops_def exact_div_def is_zero_def is_infinite_def)
  moreover have "list_handler exact_ops echo_store (no_query\<lparr>q_offset := Some ''20'', q_limit := Some ''5''\<rparr>) =
     Inr (200, \<lparr> feedbackData = (''all'', Finite 20, Finite 5, []),
                 currentPage = Finite 5, pageSize = Finite 5 \<rparr>)"
    using list_page_metadata[of echo_store "no_query\<lparr>q_offset := Some ''20'', q_limit := Some ''5''\<rparr>"
        exact_ops "(''all'', Finite 20, Finite 5, [])"]
    by (simp add: b echo_store_def) (simp add: exact_ops_def exact_div_def is_zero_def is_infinite_def)
  ultimately show ?thesis by simp
qed

section \<open>POST /: the long summary\<close>

lemma long_facts:
  "summary (req_body long_request) = Some long_summary"
  "trim long_summary \<noteq> []"
  "length long_summary > 255"
  "getEntityByRef sample_world (projectId (req_body long_request)) = Inr (Some shop_entity)"
  "insert_answer sample_world = Some ''f1''"
     apply (simp add: long_request_def)
    apply (simp add: long_summary_def trim_def is_space_def dropWhile_append dropWhile_replicate)
   apply (simp add: long_summary_def)
  apply (simp add: long_request_def sample_request_def submission_def sample_world_def sample_catalog_def)
  apply (simp add: sample_world_def)
  done

text \<open>
  C4, as the code has it. A \<^verbatim>\<open>POST /\<close> with a valid summary \<open>s\<close> hands exactly one record \<open>d\<close>
  to the store. When \<open>s\<close> has more than 255 code units, the summary of \<open>d\<close> is the sentence
  \<^verbatim>\<open><word> reported by <user> for <label>\<close>, where the word is \<^verbatim>\<open>Feedback\<close> when the
  \<^verbatim>\<open>feedbackType\<close> is \<^verbatim>\<open>FEEDBACK\<close> and \<^verbatim>\<open>Issue\<close> otherwise, the user is the second
  \<^verbatim>\<open>/\<close>-segment of \<^verbatim>\<open>createdBy\<close>, and the label is the title of the entity, or its name when
  the title is absent or empty (\<^verbatim>\<open>undefined\<close> where user or entity is missing); and the
  description of \<open>d\<close> is the whole of \<open>s\<close>, a blank line, and the submitted description if
  there is one. Otherwise summary and description are the submitted ones. When the insert
  succeeds, the record kept in the store has that summary and that description, also after
  the side effects.
\<close>

theorem post_summary_demotion:
  assumes "summary (req_body req) = Some s" and "trim s \<noteq> []"
    and "getEntityByRef w (projectId (req_body req)) = Inr entityRef"
    and "d = demote_summary entityRef (stamp w (req_body req))"
  shows "filter is_insert (fst (snd (post_handler w st req))) = [StoreInsert d]
     \<and> (if length s > 255
        then summary d =
               Some ((if feedbackType (req_body req) = Some ''FEEDBACK'' then ''Feedback'' else ''Issue'')
                     @ '' reported by ''
                     @ (case createdBy (req_body req) of
                          None \<Rightarrow> ''undefined''
                        | Some c \<Rightarrow>
                            (case split CHR ''/'' c of
                               a # b # rest \<Rightarrow> b
                             | other \<Rightarrow> ''undefined''))
                     @ '' for ''
                     @ (case entityRef of
                          None \<Rightarrow> ''undefined''
                        | Some e \<Rightarrow>
                            (case title (metadata e) of
                               None \<Rightarrow> name (metadata e)
                             | Some t \<Rightarrow> if t = [] then name (metadata e) else t)))
           \<and> description d =
               Some (s @ [CHR 0x0A, CHR 0x0A]
                       @ (case description (req_body req) of None \<Rightarrow> [] | Some x \<Rightarrow> x))
        else summary d = Some s \<and> description d = description (req_body req))
     \<and> (case insert_answer w of
          None \<Rightarrow> True
        | Some i \<Rightarrow>
            map_option summary (rows (fst (post_handler w st req)) i) = Some (summary d)
            \<and> map_option description (rows (fst (post_handler w st req)) i) = Some (description d))"
proof -
  have ins: "filter is_insert (fst (snd (post_handler w st req))) = [StoreInsert d]"
  proof (cases "insert_answer w")
    case None
    then show ?thesis
      using post_handler_refused[OF assms(1-3), of st] assms(4) by simp
  next
    case (Some i)
    show ?thesis
    proof (cases "case entityRef of None \<Rightarrow> None | Some e \<Rightarrow> annotations (metadata e)")
      case None
      then show ?thesis
        using post_handler_stored[OF assms(1-3) Some assms(4) refl refl, of st] by simp
    next
      case (Some anns)
      obtain st2 tr2 out2 where se:
        "side_effects w (st\<lparr>rows := (rows st)(i \<mapsto> d\<lparr>feedbackId := Some i\<rparr>)\<rparr>)
          (d\<lparr>feedbackId := Some i\<rparr>) anns (entityRoute (origin req) entityRef) = (st2, tr2, out2)"
        by (cases "side_effects w (st\<lparr>rows := (rows st)(i \<mapsto> d\<lparr>feedbackId := Some i\<rparr>)\<rparr>)
          (d\<lparr>feedbackId := Some i\<rparr>) anns (entityRoute (origin req) entityRef)") auto
      have "filter is_insert tr2 = []"
        using side_effects_events[OF se] by (simp add: list_ex_iff filter_empty_conv)
      then show ?thesis
        using post_handler_stored[OF assms(1-3) \<open>insert_answer w = Some i\<close> assms(4) refl refl, of st]
          Some se
        by simp
    qed
  qed
  have user: "interp (second_segment (createdBy (req_body req))) =
      (case createdBy (req_body req) of
         None \<Rightarrow> ''undefined''
       | Some c \<Rightarrow> (case split CHR ''/'' c of a # b # rest \<Rightarrow> b | other \<Rightarrow> ''undefined''))"
    by (simp add: interp_def second_segment_def at_index_def split: option.splits list.splits)
  have label: "interp (entity_label entityRef) =
      (case entityRef of
         None \<Rightarrow> ''undefined''
       | Some e \<Rightarrow>
           (case title (metadata e) of
              None \<Rightarrow> name (metadata e)
            | Some t \<Rightarrow> if t = [] then name (metadata e) else t))"
    by (simp add: interp_def entity_label_def or_else_def truthy_def split: option.splits)
  have tail: "(if truthy (description (req_body req)) then interp (description (req_body req)) else [])
      = (case description (req_body req) of None \<Rightarrow> [] | Some x \<Rightarrow> x)"
    by (simp add: truthy_def interp_def split: option.splits)
  have dem: "if length s > 255
        then summary d = Some (typeWord (req_body req) @ '' reported by ''
                                 @ interp (second_segment (createdBy (req_body req))) @ '' for ''
                                 @ interp (entity_label entityRef))
           \<and> description d = Some (s @ [CHR 0x0A, CHR 0x0A]
                                 @ (if truthy (description (req_body req))
                                    then interp (description (req_body req)) else []))
        else summary d = Some s \<and> description d = description (req_body req)"
    using assms(1) assms(4) by (simp add: demote_summary_def stamp_def typeWord_def)
  have row: "case insert_answer w of
          None \<Rightarrow> True
        | Some i \<Rightarrow>
            map_option summary (rows (fst (post_handler w st req)) i) = Some (summary d)
            \<and> map_option description (rows (fst (post_handler w st req)) i) = Some (description d)"
  proof (cases "insert_answer w")
    case None
    then show ?thesis by simp
  next
    case (Some i)
    from post_stored_row[OF assms(1-3) Some assms(4), of st]
    obtain u where "rows (fst (post_handler w st req)) i
        = Some (d\<lparr>feedbackId := Some i, ticketUrl := u\<rparr>)"
      by blast
    then show ?thesis using Some by simp
  qed
  from dem have dem': "if length s > 255
        then summary d =
               Some ((if feedbackType (req_body req) = Some ''FEEDBACK'' then ''Feedback'' else ''Issue'')
                     @ '' reported by ''
                     @ (case createdBy (req_body req) of
                          None \<Rightarrow> ''undefined''
                        | Some c \<Rightarrow>
                            (case split CHR ''/'' c of
                               a # b # rest \<Rightarrow> b
                             | other \<Rightarrow> ''undefined''))
                     @ '' for ''
                     @ (case entityRef of
                          None \<Rightarrow> ''undefined''
                        | Some e \<Rightarrow>
                            (case title (metadata e) of
                               None \<Rightarrow> name (metadata e)
                             | Some t \<Rightarrow> if t = [] then name (metadata e) else t)))
           \<and> description d =
               Some (s @ [CHR 0x0A, CHR 0x0A]
                       @ (case description (req_body req) of None \<Rightarrow> [] | Some x \<Rightarrow> x))
        else summary d = Some s \<and> description d = description (req_body req)"
    unfolding user label tail typeWord_def by simp
  from ins dem' row show ?thesis by blast
qed


theorem post_summary_demotion_witness:
  "map_option summary (rows (fst (post_handler sample_world empty_store long_request)) ''f1'')
     = Some (Some ''Issue reported by jo for Shop'')
   \<and> map_option description (rows (fst (post_handler sample_world empty_store long_request)) ''f1'')
     = Some (Some (long_summary @ [CHR 0x0A, CHR 0x0A] @ ''The docs link is dead''))
   \<and> map_option summary (rows (fst (post_handler plain_world empty_store kudos_request)) ''f1'')
     = Some (Some ''Feedback reported by jo for shop'')
   \<and> map_option description (rows (fst (post_handler plain_world empty_store kudos_request)) ''f1'')
     = Some (Some (long_summary @ [CHR 0x0A, CHR 0x0A]))
   \<and> map_option summary (rows (fst (post_handler bare_world empty_store long_request)) ''f1'')
     = Some (Some ''Issue reported by jo for undefined'')
   \<and> map_option summary (rows (fst (post_handler sample_world empty_store sample_request)) ''f1'')
     = Some (Some ''Broken link'')"
proof -
  have a: "feedbackType (req_body long_request) = Some ''ISSUE''"
    "createdBy (req_body long_request) = Some ''user:default/jo''"
    "split CHR ''/'' ''user:default/jo'' = [''user:default'', ''jo'']"
    "title (metadata shop_entity) = Some ''Shop''"
    "description (req_body long_request) = Some ''The docs link is dead''"
    by (simp_all add: long_request_def sample_request_def submission_def shop_entity_def)
  have "map_option summary (rows (fst (post_handler sample_world empty_store long_request)) ''f1'')
     = Some (Some ''Issue reported by jo for Shop'')
   \<and> map_option description (rows (fst (post_handler sample_world empty_store long_request)) ''f1'')
     = Some (Some (long_summary @ [CHR 0x0A, CHR 0x0A] @ ''The docs link is dead''))"
    using post_summary_demotion[OF long_facts(1,2,4) refl, of empty_store] long_facts(3,5)
    by (auto simp add: a)
  moreover have "map_option summary (rows (fst (post_handler plain_world empty_store kudos_request)) ''f1'')
     = Some (Some ''Feedback reported by jo for shop'')"
    by code_simp
  moreover have "map_option description (rows (fst (post_handler plain_world empty_store kudos_request)) ''f1'')
     = Some (Some (long_summary @ [CHR 0x0A, CHR 0x0A]))"
    by code_simp
  moreover have "map_option summary (rows (fst (post_handler bare_world empty_store long_request)) ''f1'')
     = Some (Some ''Issue reported by jo for undefined'')"
    by code_simp
  moreover have "map_option summary (rows (fst (post_handler sample_world empty_store sample_request)) ''f1'')
     = Some (Some ''Broken link'')"
    by code_simp
  ultimately show ?thesis by simp
qed

text \<open>
  The claim speaks of the overflow only. For a summary of 255 letters \<^verbatim>\<open>a\<close> and a final
  \<^verbatim>\<open>Z\<close>, the part beyond the limit is \<^verbatim>\<open>Z\<close>, and the stored description starts with the 255
  letters that are within the limit: the whole summary is moved, not its overflow.
\<close>

theorem post_summary_demotion_counterexample:
  "summary (req_body long_request) = Some long_summary
   \<and> length long_summary = 256
   \<and> drop 255 long_summary = ''Z''
   \<and> map_option description (rows (fst (post_handler sample_world empty_store long_request)) ''f1'')
       = Some (Some (replicate 255 CHR ''a'' @ ''Z'' @ [CHR 0x0A, CHR 0x0A] @ ''The docs link is dead''))
   \<and> map_option description (rows (fst (post_handler sample_world empty_store long_request)) ''f1'')
       \<noteq> Some (Some (''Z'' @ [CHR 0x0A, CHR 0x0A] @ ''The docs link is dead''))"
proof -
  have eq: "map_option description (rows (fst (post_handler sample_world empty_store long_request)) ''f1'')
       = Some (Some (replicate 255 CHR ''a'' @ ''Z'' @ [CHR 0x0A, CHR 0x0A] @ ''The docs link is dead''))"
    by code_simp
  have ne: "replicate 255 CHR ''a'' @ ''Z'' @ [CHR 0x0A, CHR 0x0A] @ ''The docs link is dead''
       \<noteq> ''Z'' @ [CHR 0x0A, CHR 0x0A] @ ''The docs link is dead''"
    by code_simp
  have neq: "map_option description (rows (fst (post_handler sample_world empty_store long_request)) ''f1'')
       \<noteq> Some (Some (''Z'' @ [CHR 0x0A, CHR 0x0A] @ ''The docs link is dead''))"
    unfolding eq using ne by (simp only: option.inject not_False_eq_True)
  have len: "length long_summary = 256" and ovf: "drop 255 long_summary = ''Z''"
    by (simp_all add: long_summary_def)
  from long_facts(1) len ovf eq neq show ?thesis
    by (intro conjI)
qed

section \<open>POST /: the tracker branch\<close>

text \<open>
  C3, as the code has it. Take a stored submission whose entity has annotations with a
  \<^verbatim>\<open>feedback/type\<close> that upper-cases to \<^verbatim>\<open>JIRA\<close>, and whose tag is \<open>t\<close>; \<open>d\<close> is the record with its
  new id. If \<open>t\<close> does not match the positive pattern and every step of the branch succeeds
  (the record has a description, the reporter's catalog profile and the application title
  resolve, a configuration entry \<open>cfg\<close> is resolved by the host policy, the username lookup
  answers, and the ticket creation answers with key \<open>k\<close>), then the handler makes exactly one
  ticket-creation call and, after it, exactly one store update, which carries
  \<^verbatim>\<open>ticketUrl = <host of cfg>/browse/<k>\<close>, and the store keeps that record. If \<open>t\<close> matches the
  positive pattern, there is no ticket-creation call and no update, whatever the
  collaborators answer, and the store keeps \<open>d\<close> with the \<^verbatim>\<open>ticketUrl\<close> of the submission.
\<close>

theorem post_jira_ticket:
  assumes "summary (req_body req) = Some s" and "trim s \<noteq> []"
    and "getEntityByRef w (projectId (req_body req)) = Inr (Some e)"
    and "annotations (metadata e) = Some anns"
    and "anns ''feedback/type'' = Some ty" and "toUpperCase ty = ''JIRA''"
    and "insert_answer w = Some i"
    and "tag (req_body req) = Some t"
    and "d = (demote_summary (Some e) (stamp w (req_body req)))\<lparr>feedbackId := Some i\<rparr>"
    and "route = entityRoute (origin req) (Some e)"
    and "tr = fst (snd (post_handler w st req))"
    and "st' = fst (post_handler w st req)"
  shows "(\<not> matches_positive t \<and> description d = Some desc
          \<and> getEntityByRef w (createdBy (req_body req)) = Inr rep \<and> reporterEmail_of rep = Inr em
          \<and> app_title w = Some appTitle
          \<and> jira_integrations w = Some cfgs \<and> spec_host_policy (anns ''feedback/host'') cfgs = Some cfg
          \<and> getJiraUsernameByEmail w (host cfg) em (token cfg) = Inr un
          \<and> createJiraTicket w (ticket_call cfg d anns un em appTitle route desc t) = Inr k
          \<longrightarrow> filter (\<lambda>x. is_ticket_call x \<or> is_update x) tr
               = [JiraCreateTicket (ticket_call cfg d anns un em appTitle route desc t),
                  StoreUpdate (d\<lparr>ticketUrl := Some (host cfg @ ''/browse/'' @ k)\<rparr>)]
             \<and> rows st' i = Some (d\<lparr>ticketUrl := Some (host cfg @ ''/browse/'' @ k)\<rparr>))
       \<and> (matches_positive t
          \<longrightarrow> filter (\<lambda>x. is_ticket_call x \<or> is_update x) tr = []
             \<and> rows st' i = Some d \<and> ticketUrl d = ticketUrl (req_body req))"
proof (intro conjI impI)
  define st1 where "st1 = st\<lparr>rows := (rows st)(i \<mapsto> d)\<rparr>"
  have tagd: "tag d = Some t" and cb: "createdBy d = createdBy (req_body req)"
    and fid: "feedbackId d = Some i"
    using assms(8,9) by simp_all
  {
    assume a: "\<not> matches_positive t \<and> description d = Some desc
          \<and> getEntityByRef w (createdBy (req_body req)) = Inr rep \<and> reporterEmail_of rep = Inr em
          \<and> app_title w = Some appTitle
          \<and> jira_integrations w = Some cfgs \<and> spec_host_policy (anns ''feedback/host'') cfgs = Some cfg
          \<and> getJiraUsernameByEmail w (host cfg) em (token cfg) = Inr un
          \<and> createJiraTicket w (ticket_call cfg d anns un em appTitle route desc t) = Inr k"
    define d' where "d' = d\<lparr>ticketUrl := Some (host cfg @ ''/browse/'' @ k)\<rparr>"
    have cfg: "post_serviceConfig (anns ''feedback/host'') cfgs = Some cfg"
      using a by (simp add: post_config_policy)
    have jb: "jira_branch w st1 d anns em appTitle route =
      (fst (updateFeedback st1 d'),
       [JiraUsernameLookup (host cfg) em (token cfg),
        JiraCreateTicket (ticket_call cfg d anns un em appTitle route desc t),
        StoreUpdate d'],
       Inr d')"
      unfolding d'_def using a cfg tagd
      by (intro jira_branch_success[where cfgs = cfgs]) simp_all
    have ts: "tracker_step w st1 d anns ty em appTitle route =
      (fst (updateFeedback st1 d'),
       [JiraUsernameLookup (host cfg) em (token cfg),
        JiraCreateTicket (ticket_call cfg d anns un em appTitle route desc t),
        StoreUpdate d'],
       Inr d')"
      using a tagd assms(6) jb by (simp add: tracker_step_def)
    have se: "side_effects w st1 d anns route =
      (fst (updateFeedback st1 d'),
       CatalogGetEntityByRef (createdBy d) #
         [JiraUsernameLookup (host cfg) em (token cfg),
          JiraCreateTicket (ticket_call cfg d anns un em appTitle route desc t),
          StoreUpdate d']
         @ (if toUpperCase ty = ''MAIL'' \<or> truthy (anns ''feedback/email-to'')
            then [SendMail (mail_options w d' em (anns ''feedback/email-to'') appTitle route)]
            else []),
       Returned)"
      using side_effects_run[of w d rep em appTitle anns ty st1 route] a cb assms(5) ts
      by simp
    have ph: "post_handler w st req =
     (fst (updateFeedback st1 d'),
      [CatalogGetEntityByRef (projectId (req_body req)),
       StoreInsert (demote_summary (Some e) (stamp w (req_body req))),
       Respond 201 (DataBody (FeedbackData d) (typeWord (req_body req) @ '' created successfully''))]
        @ (CatalogGetEntityByRef (createdBy d) #
         [JiraUsernameLookup (host cfg) em (token cfg),
          JiraCreateTicket (ticket_call cfg d anns un em appTitle route desc t),
          StoreUpdate d']
         @ (if toUpperCase ty = ''MAIL'' \<or> truthy (anns ''feedback/email-to'')
            then [SendMail (mail_options w d' em (anns ''feedback/email-to'') appTitle route)]
            else [])),
      Returned)"
      using post_handler_annotated[OF assms(1-4) assms(7) assms(9) assms(10) se[unfolded st1_def]]
      by (simp add: st1_def)
    show "filter (\<lambda>x. is_ticket_call x \<or> is_update x) tr
               = [JiraCreateTicket (ticket_call cfg d anns un em appTitle route desc t),
                  StoreUpdate (d\<lparr>ticketUrl := Some (host cfg @ ''/browse/'' @ k)\<rparr>)]"
      unfolding assms(11) ph by (simp add: d'_def)
    show "rows st' i = Some (d\<lparr>ticketUrl := Some (host cfg @ ''/browse/'' @ k)\<rparr>)"
      unfolding assms(12) ph st1_def d'_def
      using update_after_insert[OF fid, of st] by simp
  }
  {
    assume p: "matches_positive t"
    obtain st2 tr2 out2 where se: "side_effects w st1 d anns route = (st2, tr2, out2)"
      by (cases "side_effects w st1 d anns route") auto
    have ph: "post_handler w st req =
     (st2,
      [CatalogGetEntityByRef (projectId (req_body req)),
       StoreInsert (demote_summary (Some e) (stamp w (req_body req))),
       Respond 201 (DataBody (FeedbackData d) (typeWord (req_body req) @ '' created successfully''))]
        @ tr2,
      out2)"
      using post_handler_annotated[OF assms(1-4) assms(7) assms(9) assms(10) se[unfolded st1_def]]
      by simp
    from side_effects_positive[OF se tagd p]
    have q: "st2 = st1" "\<not> list_ex is_ticket_call tr2" "\<not> list_ex is_update tr2"
      by simp_all
    have "filter (\<lambda>x. is_ticket_call x \<or> is_update x) tr2 = []"
      using q(2,3) by (auto simp: list_ex_iff filter_empty_conv)
    then show "filter (\<lambda>x. is_ticket_call x \<or> is_update x) tr = []"
      unfolding assms(11) ph by simp
    show "rows st' i = Some d"
      unfolding assms(12) ph using q(1) by (simp add: st1_def)
    show "ticketUrl d = ticketUrl (req_body req)"
      using assms(9) by simp
  }
qed

theorem post_jira_ticket_witness:
  "filter (\<lambda>x. is_ticket_call x \<or> is_update x)
      (fst (snd (post_handler sample_world empty_store sample_request)))
     = [JiraCreateTicket
          (ticket_call \<lparr> host = ''https://jira.host'', token = ''t1'' \<rparr> sample_feedback
             shop_annotations (Some ''jo'') (Some ''jo@example.com'') ''Portal''
             (entityRoute (origin sample_request) (Some shop_entity))
             ''The docs link is dead'' ''Bad''),
        StoreUpdate (sample_feedback\<lparr>ticketUrl := Some ''https://jira.host/browse/SHOP-1''\<rparr>)]
   \<and> rows (fst (post_handler sample_world empty_store sample_request)) ''f1''
     = Some (sample_feedback\<lparr>ticketUrl := Some ''https://jira.host/browse/SHOP-1''\<rparr>)
   \<and> filter (\<lambda>x. is_ticket_call x \<or> is_update x)
      (fst (snd (post_handler sample_world empty_store praise_request))) = []"
proof -
  note f = sample_world_facts
  have desc: "description sample_feedback = Some ''The docs link is dead''"
    by (simp add: sample_feedback_def)
  have "filter (\<lambda>x. is_ticket_call x \<or> is_update x)
      (fst (snd (post_handler sample_world empty_store sample_request)))
     = [JiraCreateTicket
          (ticket_call \<lparr> host = ''https://jira.host'', token = ''t1'' \<rparr> sample_feedback
             shop_annotations (Some ''jo'') (Some ''jo@example.com'') ''Portal''
             (entityRoute (origin sample_request) (Some shop_entity))
             ''The docs link is dead'' ''Bad''),
        StoreUpdate (sample_feedback\<lparr>ticketUrl := Some ''https://jira.host/browse/SHOP-1''\<rparr>)]
   \<and> rows (fst (post_handler sample_world empty_store sample_request)) ''f1''
     = Some (sample_feedback\<lparr>ticketUrl := Some ''https://jira.host/browse/SHOP-1''\<rparr>)"
    using post_jira_ticket[OF f(1) trim_sample f(2) f(3) f(4) upper_sample f(5) f(6) refl refl refl refl,
        where st = empty_store and desc = "''The docs link is dead''" and rep = "Some jo_entity"
          and em = "Some ''jo@example.com''" and appTitle = "''Portal''"
          and cfgs = "[\<lparr> host = ''https://other.host'', token = ''t0'' \<rparr>,
                       \<lparr> host = ''https://jira.host'', token = ''t1'' \<rparr>]"
          and cfg = "\<lparr> host = ''https://jira.host'', token = ''t1'' \<rparr>"
          and un = "Some ''jo''" and k = "''SHOP-1''"]
    by (simp add: f(7-14) positive_bad desc)
  moreover have "filter (\<lambda>x. is_ticket_call x \<or> is_update x)
      (fst (snd (post_handler sample_world empty_store praise_request))) = []"
    using post_jira_ticket[OF praise_facts(1) trim_sample praise_facts(2) f(3) f(4) upper_sample f(5)
        praise_facts(3) refl refl refl refl, where st = empty_store]
    by (simp add: positive_good)
  ultimately show ?thesis by simp
qed

text \<open>
  The claim without those conditions fails: when the tracker rejects the creation call, the
  submission is stored, its type is JIRA and its tag \<^verbatim>\<open>Bad\<close> is not positive, the ticket call
  is made, and yet no update follows and the stored record has no \<^verbatim>\<open>ticketUrl\<close>.
\<close>

theorem post_jira_ticket_counterexample:
  "getEntityByRef tracker_down_world (projectId (req_body sample_request)) = Inr (Some shop_entity)
   \<and> annotations (metadata shop_entity) = Some shop_annotations
   \<and> map_option toUpperCase (shop_annotations ''feedback/type'') = Some ''JIRA''
   \<and> tag (req_body sample_request) = Some ''Bad'' \<and> \<not> matches_positive ''Bad''
   \<and> rows (fst (post_handler tracker_down_world empty_store sample_request)) ''f1''
       = Some sample_feedback
   \<and> ticketUrl sample_feedback = None
   \<and> list_ex is_ticket_call (fst (snd (post_handler tracker_down_world empty_store sample_request)))
   \<and> \<not> list_ex is_update (fst (snd (post_handler tracker_down_world empty_store sample_request)))"
proof -
  have "rows (fst (post_handler tracker_down_world empty_store sample_request)) ''f1''
       = Some sample_feedback"
    by code_simp
  moreover have "list_ex is_ticket_call (fst (snd (post_handler tracker_down_world empty_store sample_request)))"
    by code_simp
  moreover have "\<not> list_ex is_update (fst (snd (post_handler tracker_down_world empty_store sample_request)))"
    by code_simp
  moreover have "map_option toUpperCase (shop_annotations ''feedback/type'') = Some ''JIRA''"
    by (simp add: shop_annotations_def upper_sample)
  ultimately show ?thesis
    by (simp add: sample_catalog_shop positive_bad sample_world_facts(3,6) sample_feedback_def)
qed

section \<open>POST /: the mail\<close>

text \<open>
  C8, as the code has it. Take a stored submission whose entity has annotations with a
  \<^verbatim>\<open>feedback/type\<close> \<open>ty\<close>, where \<open>ty\<close> upper-cases to \<^verbatim>\<open>MAIL\<close> or a non-empty
  \<^verbatim>\<open>feedback/email-to\<close> is annotated. If the reporter's catalog profile and the application
  title resolve, and the tracker step before the mail (taken when the type is JIRA and the
  tag is not positive) runs to its end, then the handler invokes \<^verbatim>\<open>sendMail\<close> exactly once, with
  \<^verbatim>\<open>to\<close> the email of the reporter's profile, \<^verbatim>\<open>replyTo\<close> the annotation, and the subject
  \<^verbatim>\<open><tag> - <Feedback|Issue> reported for <second segment of projectId>\<close>.
\<close>

theorem post_mail_sent:
  assumes "summary (req_body req) = Some s" and "trim s \<noteq> []"
    and "getEntityByRef w (projectId (req_body req)) = Inr (Some e)"
    and "annotations (metadata e) = Some anns"
    and "anns ''feedback/type'' = Some ty"
    and "toUpperCase ty = ''MAIL'' \<or> truthy (anns ''feedback/email-to'')"
    and "insert_answer w = Some i"
    and "getEntityByRef w (createdBy (req_body req)) = Inr rep" and "reporterEmail_of rep = Inr em"
    and "app_title w = Some appTitle"
    and "d = (demote_summary (Some e) (stamp w (req_body req)))\<lparr>feedbackId := Some i\<rparr>"
    and "route = entityRoute (origin req) (Some e)"
    and "snd (snd (tracker_step w (st\<lparr>rows := (rows st)(i \<mapsto> d)\<rparr>) d anns ty em appTitle route)) = Inr d2"
    and "m = mail_options w d2 em (anns ''feedback/email-to'') appTitle route"
  shows "filter is_mail (fst (snd (post_handler w st req))) = [SendMail m]
     \<and> to m = em
     \<and> replyTo m = anns ''feedback/email-to''
     \<and> subject m = interp (tag (req_body req)) @ '' - '' @ typeWord (req_body req)
                      @ '' reported for '' @ interp (second_segment (projectId (req_body req)))"
proof -
  define st1 where "st1 = st\<lparr>rows := (rows st)(i \<mapsto> d)\<rparr>"
  obtain st2 tr1 where ts: "tracker_step w st1 d anns ty em appTitle route = (st2, tr1, Inr d2)"
    using assms(13) unfolding st1_def
    by (cases "tracker_step w (st\<lparr>rows := (rows st)(i \<mapsto> d)\<rparr>) d anns ty em appTitle route") auto
  have cb: "createdBy d = createdBy (req_body req)"
    using assms(11) by simp
  have nomail: "filter is_mail tr1 = []"
    using tracker_step_events[OF ts] by (simp add: list_ex_iff filter_empty_conv)
  have se: "side_effects w st1 d anns route =
      (st2, CatalogGetEntityByRef (createdBy d) # tr1 @ [SendMail m], Returned)"
    using side_effects_run[of w d rep em appTitle anns ty st1 route] assms(5,6,8,9,10,14) cb ts
    by auto
  have ph: "post_handler w st req =
     (st2,
      [CatalogGetEntityByRef (projectId (req_body req)),
       StoreInsert (demote_summary (Some e) (stamp w (req_body req))),
       Respond 201 (DataBody (FeedbackData d) (typeWord (req_body req) @ '' created successfully''))]
        @ (CatalogGetEntityByRef (createdBy d) # tr1 @ [SendMail m]),
      Returned)"
    using post_handler_annotated[OF assms(1-4) assms(7) assms(11) assms(12) se[unfolded st1_def]]
    by simp
  have one: "filter is_mail (fst (snd (post_handler w st req))) = [SendMail m]"
    unfolding ph using nomail by simp
  from tracker_step_result[OF ts]
  have same: "tag d2 = tag d \<and> typeWord d2 = typeWord d \<and> projectId d2 = projectId d"
    by (auto simp: typeWord_def)
  have orig: "tag d = tag (req_body req)" "typeWord d = typeWord (req_body req)"
    "projectId d = projectId (req_body req)"
    using assms(11) by (simp_all add: typeWord_def demote_summary_def stamp_def split: option.splits)
  show ?thesis
    using one same orig by (simp add: assms(14) mail_options_fields)
qed

lemma mail_world_facts:
  "getEntityByRef mail_world (projectId (req_body sample_request)) = Inr (Some mail_entity)"
  "annotations (metadata mail_entity) = Some [''feedback/type'' \<mapsto> ''mail'']"
  "insert_answer mail_world = Some ''f1''"
  "getEntityByRef mail_world (createdBy (req_body sample_request)) = Inr (Some jo_entity)"
  "app_title mail_world = Some ''Portal''"
  "toUpperCase ''mail'' = ''MAIL''"
     apply (simp_all add: sample_request_def submission_def mail_world_def sample_world_def
      sample_catalog_def mail_entity_def)
  apply code_simp
  done

theorem post_mail_sent_witness:
  "\<exists>b. filter is_mail (fst (snd (post_handler mail_world empty_store sample_request)))
      = [SendMail \<lparr> to = Some ''jo@example.com'', replyTo = None,
                     subject = ''Bad - Issue reported for shop'', mail_body = b \<rparr>]"
proof -
  note f = sample_world_facts
  note g = mail_world_facts
  have ty: "[''feedback/type'' \<mapsto> ''mail''] ''feedback/type'' = Some ''mail''"
    by simp
  have ts: "snd (snd (tracker_step mail_world
       (empty_store\<lparr>rows := (rows empty_store)(''f1'' \<mapsto>
           (demote_summary (Some mail_entity) (stamp mail_world (req_body sample_request)))
              \<lparr>feedbackId := Some ''f1''\<rparr>)\<rparr>)
       ((demote_summary (Some mail_entity) (stamp mail_world (req_body sample_request)))
              \<lparr>feedbackId := Some ''f1''\<rparr>)
       [''feedback/type'' \<mapsto> ''mail''] ''mail'' (Some ''jo@example.com'') ''Portal''
       (entityRoute (origin sample_request) (Some mail_entity))))
     = Inr ((demote_summary (Some mail_entity) (stamp mail_world (req_body sample_request)))
              \<lparr>feedbackId := Some ''f1''\<rparr>)"
    by (simp add: tracker_step_def g(6))
  have sub: "interp (tag (req_body sample_request)) = ''Bad''"
    "typeWord (req_body sample_request) = ''Issue''"
    "interp (second_segment (projectId (req_body sample_request))) = ''shop''"
    by code_simp+
  have emp: "[''feedback/type'' \<mapsto> ''mail''] ''feedback/email-to'' = None"
    by simp
  from post_mail_sent[OF f(1) trim_sample g(1) g(2) ty _ g(3) g(4) f(8) g(5) refl refl ts refl]
  have "filter is_mail (fst (snd (post_handler mail_world empty_store sample_request)))
      = [SendMail (mail_options mail_world
           ((demote_summary (Some mail_entity) (stamp mail_world (req_body sample_request)))
              \<lparr>feedbackId := Some ''f1''\<rparr>)
           (Some ''jo@example.com'') None ''Portal''
           (entityRoute (origin sample_request) (Some mail_entity)))]
     \<and> subject (mail_options mail_world
           ((demote_summary (Some mail_entity) (stamp mail_world (req_body sample_request)))
              \<lparr>feedbackId := Some ''f1''\<rparr>)
           (Some ''jo@example.com'') None ''Portal''
           (entityRoute (origin sample_request) (Some mail_entity)))
       = ''Bad - Issue reported for shop''"
    by (simp add: g(6) sub emp)
  then show ?thesis
    by (simp add: mail_options_def)
qed

text \<open>
  The claim without those conditions fails: with a \<^verbatim>\<open>feedback/email-to\<close> annotation on an
  entity of type JIRA and a tracker that rejects the creation call, the submission is
  stored and no mail is sent.
\<close>

theorem post_mail_sent_counterexample:
  "getEntityByRef tracker_down_world (projectId (req_body sample_request)) = Inr (Some shop_entity)
   \<and> annotations (metadata shop_entity) = Some shop_annotations
   \<and> shop_annotations ''feedback/email-to'' = Some ''team@example.com''
   \<and> rows (fst (post_handler tracker_down_world empty_store sample_request)) ''f1''
       = Some sample_feedback
   \<and> filter is_mail (fst (snd (post_handler tracker_down_world empty_store sample_request))) = []"
proof -
  have "rows (fst (post_handler tracker_down_world empty_store sample_request)) ''f1''
       = Some sample_feedback"
    by code_simp
  moreover have "filter is_mail (fst (snd (post_handler tracker_down_world empty_store sample_request))) = []"
    by code_simp
  ultimately show ?thesis
    by (simp add: sample_catalog_shop sample_world_facts(3) shop_annotations_def)
qed

end
